theory Spec2Isabelle
  imports Main "HOL-Library.AList" "HOL-Library.Sublist"
begin

section \<open>Python values\<close>

text \<open>
  The values that flow through \<^verbatim>\<open>bulk_webhook.py\<close>: what a producer returns, what
  \<^verbatim>\<open>json.loads\<close> builds, what a filter holds. A string is a list of code points below 256.
  \<open>PTemporal s\<close> is a \<^verbatim>\<open>datetime\<close>, \<^verbatim>\<open>date\<close>, \<^verbatim>\<open>time\<close> or \<^verbatim>\<open>timedelta\<close> object whose
  \<^verbatim>\<open>str()\<close> is \<open>s\<close>. Floats are left out. A dict is an association list in insertion
  order; \<open>AList.update\<close> is Python's \<^verbatim>\<open>d[k] = v\<close> (an existing key keeps its place, a new
  one goes last).
\<close>

datatype pyval =
    PNone
  | PBool bool
  | PInt int
  | PStr string
  | PTemporal string
  | PList "pyval list"
  | PDict "(string \<times> pyval) list"

type_synonym pydict = "(string \<times> pyval) list"

datatype error =
    UnboundLocalError
  | TypeError
  | AttributeError
  | KeyError string
  | JSONDecodeError
  | TemplateError
  | ProducerError
  | AuthenticationError
  | ConnectionError string
  | HTTPError nat
  | DatabaseError string
  | ValidationError string string

text \<open>
  Python's truth test. Of the temporal values only a zero \<^verbatim>\<open>timedelta\<close> is false, and it is
  the only one whose \<^verbatim>\<open>str()\<close> is \<^verbatim>\<open>0:00:00\<close> (a \<^verbatim>\<open>time\<close> prints two hour digits).
\<close>

fun py_truthy :: "pyval \<Rightarrow> bool" where
  "py_truthy PNone = False"
| "py_truthy (PBool b) = b"
| "py_truthy (PInt n) = (n \<noteq> 0)"
| "py_truthy (PStr s) = (s \<noteq> [])"
| "py_truthy (PTemporal s) = (s \<noteq> ''0:00:00'')"
| "py_truthy (PList xs) = (xs \<noteq> [])"
| "py_truthy (PDict d) = (d \<noteq> [])"

text \<open>\<^verbatim>\<open>d.get(k)\<close>: the value, or \<^verbatim>\<open>None\<close> for a missing key.\<close>

definition dict_get :: "pydict \<Rightarrow> string \<Rightarrow> pyval" where
  "dict_get d k = (case map_of d k of None \<Rightarrow> PNone | Some v \<Rightarrow> v)"

text \<open>\<^verbatim>\<open>for x in v\<close>: a list yields its items, a dict its keys, a string its characters.\<close>

fun py_iter :: "pyval \<Rightarrow> error + pyval list" where
  "py_iter (PList xs) = Inr xs"
| "py_iter (PDict d) = Inr (map (\<lambda>(k, v). PStr k) d)"
| "py_iter (PStr s) = Inr (map (\<lambda>c. PStr [c]) s)"
| "py_iter v = Inl TypeError"

section \<open>JSON serialisation\<close>

text \<open>
  \<^verbatim>\<open>json.dumps\<close> with its default separators and \<^verbatim>\<open>ensure_ascii\<close>: every character outside
  the printable ASCII range, the quote and the backslash are escaped.
\<close>

definition hex_digit :: "nat \<Rightarrow> char" where
  "hex_digit d = ''0123456789abcdef'' ! (d mod 16)"

definition json_escape_char :: "char \<Rightarrow> string" where
  "json_escape_char c =
     (if c = CHR 0x22 then [CHR 0x5C, CHR 0x22]
      else if c = CHR 0x5C then [CHR 0x5C, CHR 0x5C]
      else if c = CHR 0x0A then [CHR 0x5C, CHR ''n'']
      else if c = CHR 0x0D then [CHR 0x5C, CHR ''r'']
      else if c = CHR 0x09 then [CHR 0x5C, CHR ''t'']
      else if c = CHR 0x08 then [CHR 0x5C, CHR ''b'']
      else if c = CHR 0x0C then [CHR 0x5C, CHR ''f'']
      else if (of_char c :: nat) < 32 \<or> 126 < (of_char c :: nat)
        then [CHR 0x5C, CHR ''u'', CHR ''0'', CHR ''0'',
              hex_digit (of_char c div 16), hex_digit (of_char c)]
      else [c])"

definition json_string :: "string \<Rightarrow> string" where
  "json_string s = [CHR 0x22] @ concat (map json_escape_char s) @ [CHR 0x22]"

fun dec_nat :: "nat \<Rightarrow> string" where
  "dec_nat n = (if n < 10 then [hex_digit n] else dec_nat (n div 10) @ [hex_digit (n mod 10)])"

definition dec_int :: "int \<Rightarrow> string" where
  "dec_int i = (if i < 0 then CHR ''-'' # dec_nat (nat (- i)) else dec_nat (nat i))"

fun join :: "string \<Rightarrow> string list \<Rightarrow> string" where
  "join sep [] = []"
| "join sep [x] = x"
| "join sep (x # y # ys) = x @ sep @ join sep (y # ys)"

text \<open>
  \<open>json_text ind lvl v\<close> is the text of \<open>v\<close>; \<open>ind = None\<close> is the compact form
  (\<^verbatim>\<open>", "\<close> and \<^verbatim>\<open>": "\<close>), \<open>ind = Some k\<close> is \<^verbatim>\<open>indent=k\<close> at nesting depth \<open>lvl\<close>. A temporal
  value is written as the string of its \<^verbatim>\<open>str()\<close>, which is what \<^verbatim>\<open>default=str\<close> produces;
  without \<^verbatim>\<open>default\<close> the encoder raises instead (\<open>json_native\<close> below).
\<close>

definition newline_indent :: "nat option \<Rightarrow> nat \<Rightarrow> string" where
  "newline_indent ind lvl =
     (case ind of None \<Rightarrow> [] | Some k \<Rightarrow> CHR 0x0A # replicate (k * lvl) CHR '' '')"

definition item_sep :: "nat option \<Rightarrow> nat \<Rightarrow> string" where
  "item_sep ind lvl =
     (case ind of None \<Rightarrow> '', '' | Some k \<Rightarrow> '','' @ newline_indent ind lvl)"

fun json_text :: "nat option \<Rightarrow> nat \<Rightarrow> pyval \<Rightarrow> string" where
  "json_text ind lvl PNone = ''null''"
| "json_text ind lvl (PBool b) = (if b then ''true'' else ''false'')"
| "json_text ind lvl (PInt i) = dec_int i"
| "json_text ind lvl (PStr s) = json_string s"
| "json_text ind lvl (PTemporal s) = json_string s"
| "json_text ind lvl (PList xs) =
     (if xs = [] then ''[]''
      else ''['' @ newline_indent ind (Suc lvl)
           @ join (item_sep ind (Suc lvl)) (map (json_text ind (Suc lvl)) xs)
           @ newline_indent ind lvl @ '']'')"
| "json_text ind lvl (PDict d) =
     (if d = [] then ''{}''
      else ''{'' @ newline_indent ind (Suc lvl)
           @ join (item_sep ind (Suc lvl))
               (map (\<lambda>(k, v). json_string k @ '': '' @ json_text ind (Suc lvl) v) d)
           @ newline_indent ind lvl @ ''}'')"

fun json_native :: "pyval \<Rightarrow> bool" where
  "json_native (PTemporal s) = False"
| "json_native (PList xs) = list_all json_native xs"
| "json_native (PDict d) = list_all (\<lambda>(k, v). json_native v) d"
| "json_native v = True"

text \<open>
  \<open>json_dumps use_default ind v\<close>: \<^verbatim>\<open>json.dumps(v, indent=ind)\<close>, with \<^verbatim>\<open>default=str\<close> when
  \<open>use_default\<close>. Without it a temporal value anywhere in \<open>v\<close> is a \<^verbatim>\<open>TypeError\<close>.
\<close>

definition json_dumps :: "bool \<Rightarrow> nat option \<Rightarrow> pyval \<Rightarrow> error + string" where
  "json_dumps use_default ind v =
     (if use_default \<or> json_native v then Inr (json_text ind 0 v) else Inl TypeError)"

section \<open>Configuration and environment\<close>

text \<open>
  One row of a header child table. \<^verbatim>\<open>h.get("key")\<close> is \<open>None\<close> for an unset field.
\<close>

record hrow =
  hkey :: "string option"
  hvalue :: "string option"

text \<open>
  The fields of a \<^verbatim>\<open>Bulk Webhook\<close> document that the code reads. \<open>filters\<close> and
  \<open>filter_meta\<close> hold JSON text in the document; here they hold what
  \<^verbatim>\<open>frappe.parse_json\<close> makes of it, and \<open>None\<close> is the empty (false) field.
\<close>

record webhook =
  request_url :: "string option"
  request_method :: string
  source :: string
  webhook_json :: "string option"
  webhook_headers :: "hrow list"
  enable_security :: bool
  webhook_secret :: "string option"
  send_if_data :: bool
  script_return_variable :: string
  filters :: "pydict option"
  filter_meta :: "pydict list option"

text \<open>What \<^verbatim>\<open>requests.request\<close> does: raise before any response exists, or return a
  response with a status code and a body; the body's JSON value is \<open>None\<close> when
  \<^verbatim>\<open>r.json()\<close> raises.\<close>

datatype http_outcome =
    Transport_failure string
  | Response nat "pyval option"

text \<open>
  Everything outside the file: the report engine, the named method, the server script,
  the template engine, \<^verbatim>\<open>json.loads\<close>, the network, the log store and the settings
  document. A producer is asked by the number of productions made before it in the same
  job, so it can answer differently each time; the network is asked by attempt index.
  \<open>log_insert i h\<close> is what storing a log entry raises, if anything
  (\<^verbatim>\<open>frappe.get_doc\<close>, \<^verbatim>\<open>insert\<close>, \<^verbatim>\<open>frappe.db.commit\<close>), at the call of \<^verbatim>\<open>log_request\<close> in
  pass \<open>i\<close> of the loop: \<open>h\<close> is false for the call in the \<^verbatim>\<open>try\<close> block and true for
  the call in the \<^verbatim>\<open>except\<close> branch.
\<close>

record env =
  report_get_data :: "nat \<Rightarrow> error + pydict list"
  call_method :: "nat \<Rightarrow> error + pyval"
  run_script :: "nat \<Rightarrow> error + pydict"
  render_template :: "string \<Rightarrow> pyval \<Rightarrow> error + string"
  json_loads :: "string \<Rightarrow> error + pyval"
  http_request :: "nat \<Rightarrow> http_outcome"
  log_insert :: "nat \<Rightarrow> bool \<Rightarrow> error option"
  settings_url :: "string option"
  settings_headers :: "hrow list"

definition str_truthy :: "string option \<Rightarrow> bool" where
  "str_truthy s = (case s of None \<Rightarrow> False | Some t \<Rightarrow> t \<noteq> [])"

section \<open>Payload producers\<close>

text \<open>
  \<^verbatim>\<open>get_report_data\<close>: the rows of the report get a 1-based \<^verbatim>\<open>idx\<close>; no rows and
  \<^verbatim>\<open>send_if_data\<close> give \<^verbatim>\<open>None\<close>. The filters it prepares only go into the report engine,
  which is the environment's.
\<close>

fun add_idx :: "nat \<Rightarrow> pydict list \<Rightarrow> pydict list" where
  "add_idx i [] = []"
| "add_idx i (row # rows) = AList.update ''idx'' (PInt (int i + 1)) row # add_idx (Suc i) rows"

definition get_report_data :: "env \<Rightarrow> webhook \<Rightarrow> nat \<Rightarrow> error + pyval" where
  "get_report_data e w n =
     (case report_get_data e n of
        Inl err \<Rightarrow> Inl err
      | Inr rows \<Rightarrow>
          (let data = add_idx 0 rows in
           if length data = 0 \<and> send_if_data w then Inr PNone
           else Inr (PList (map PDict data))))"

text \<open>
  \<^verbatim>\<open>get_method_data\<close>: decoding the keyword arguments and calling the named method are
  both the environment's; what comes back is whatever the method returns.
  \<^verbatim>\<open>get_script_data\<close>: the named variable of the script's final locals, \<^verbatim>\<open>None\<close> when
  there is none.
\<close>

definition get_method_data :: "env \<Rightarrow> webhook \<Rightarrow> nat \<Rightarrow> error + pyval" where
  "get_method_data e w n = call_method e n"

definition get_script_data :: "env \<Rightarrow> webhook \<Rightarrow> nat \<Rightarrow> error + pyval" where
  "get_script_data e w n =
     (case run_script e n of
        Inl err \<Rightarrow> Inl err
      | Inr locals \<Rightarrow> Inr (dict_get locals (script_return_variable w)))"

section \<open>Rendering\<close>

text \<open>The copy of one record with its temporal values replaced by their \<^verbatim>\<open>str()\<close>.\<close>

definition stringify_rec :: "pydict \<Rightarrow> pydict" where
  "stringify_rec rec =
     fold (\<lambda>(key, v) copy_rec.
             case v of PTemporal s \<Rightarrow> AList.update key (PStr s) copy_rec | _ \<Rightarrow> copy_rec)
          rec rec"

text \<open>The loop over \<^verbatim>\<open>_data\<close>: an item that is no dict has no \<^verbatim>\<open>copy\<close> or \<^verbatim>\<open>items\<close>.\<close>

fun convert_records :: "pyval list \<Rightarrow> error + pydict list" where
  "convert_records [] = Inr []"
| "convert_records (PDict rec # rest) =
     (case convert_records rest of
        Inl err \<Rightarrow> Inl err
      | Inr data_list \<Rightarrow> Inr (stringify_rec rec # data_list))"
| "convert_records (v # rest) = Inl AttributeError"

text \<open>The template, when \<^verbatim>\<open>webhook.webhook_json\<close> is true (set and not empty).\<close>

definition template_of :: "webhook \<Rightarrow> string option" where
  "template_of w =
     (case webhook_json w of None \<Rightarrow> None | Some t \<Rightarrow> if t = [] then None else Some t)"

text \<open>\<^verbatim>\<open>get_context\<close>; its \<^verbatim>\<open>utils\<close> entry is a module of the framework and is left to the
  template engine.\<close>

definition get_context :: "pydict list \<Rightarrow> pyval" where
  "get_context data_list = PDict [(''data'', PList (map PDict data_list))]"

text \<open>
  The part of \<^verbatim>\<open>get_webhook_data\<close> after the producer has returned \<^verbatim>\<open>_data\<close>: nothing
  for a false \<^verbatim>\<open>_data\<close>, else the records are converted, and \<^verbatim>\<open>data\<close>, which starts as the
  empty dict, is assigned again only under a template.
\<close>

definition render_data :: "env \<Rightarrow> webhook \<Rightarrow> pyval \<Rightarrow> error + pyval" where
  "render_data e w raw =
     (if \<not> py_truthy raw then Inr PNone
      else
        (case py_iter raw of
           Inl err \<Rightarrow> Inl err
         | Inr items \<Rightarrow>
             (case convert_records items of
                Inl err \<Rightarrow> Inl err
              | Inr data_list \<Rightarrow>
                  (case template_of w of
                     Some template \<Rightarrow>
                       (case render_template e template (get_context data_list) of
                          Inl err \<Rightarrow> Inl err
                        | Inr rendered \<Rightarrow> json_loads e rendered)
                   | None \<Rightarrow> Inr (PDict [])))))"

text \<open>The producer call at the head of \<^verbatim>\<open>get_webhook_data\<close>, for one of the three sources.\<close>

definition produce :: "env \<Rightarrow> webhook \<Rightarrow> nat \<Rightarrow> error + pyval" where
  "produce e w n =
     (if source w = ''Report'' then get_report_data e w n
      else if source w = ''Method'' then get_method_data e w n
      else get_script_data e w n)"

text \<open>
  \<^verbatim>\<open>get_webhook_data\<close>, with the count of productions passed through: the result and the
  count after the call. \<^verbatim>\<open>_data\<close> is unbound when the source is none of the three.
\<close>

definition get_webhook_data :: "env \<Rightarrow> webhook \<Rightarrow> nat \<Rightarrow> (error + pyval) \<times> nat" where
  "get_webhook_data e w n =
     (if source w \<noteq> ''Report'' \<and> source w \<noteq> ''Method'' \<and> source w \<noteq> ''Script''
      then (Inl UnboundLocalError, n)
      else
        (case produce e w n of
           Inl err \<Rightarrow> (Inl err, Suc n)
         | Inr raw \<Rightarrow> (render_data e w raw, Suc n)))"

section \<open>Signing and header resolution\<close>

text \<open>
  The signature is kept symbolic: \<open>Hmac_sha256_b64 key msg\<close> stands for the bytes
  \<^verbatim>\<open>base64.b64encode(hmac.new(key, msg, hashlib.sha256).digest())\<close>. A header value is a
  string from a header row, or those bytes.
\<close>

datatype sigval = Hmac_sha256_b64 string string

datatype hval = HStr string | HSig sigval

type_synonym headers = "(string \<times> hval) list"

definition WEBHOOK_SECRET_HEADER :: string where
  "WEBHOOK_SECRET_HEADER = ''X-Frappe-Webhook-Signature''"

text \<open>The loop over header rows: a row counts when its key and its value are both true.\<close>

definition add_header_row :: "hrow \<Rightarrow> headers \<Rightarrow> headers" where
  "add_header_row h hs =
     (case hkey h of
        None \<Rightarrow> hs
      | Some k \<Rightarrow>
          (case hvalue h of
             None \<Rightarrow> hs
           | Some v \<Rightarrow> if k \<noteq> [] \<and> v \<noteq> [] then AList.update k (HStr v) hs else hs))"

definition add_header_rows :: "hrow list \<Rightarrow> headers \<Rightarrow> headers" where
  "add_header_rows rows hs = fold add_header_row rows hs"

text \<open>
  The first half of \<^verbatim>\<open>get_webhook_headers\<close>: under \<^verbatim>\<open>enable_security\<close> it produces the
  payload itself, reads the secret (\<^verbatim>\<open>get_password\<close> raises when there is none) and signs
  \<^verbatim>\<open>json.dumps(data)\<close>.
\<close>

definition signature_headers :: "env \<Rightarrow> webhook \<Rightarrow> nat \<Rightarrow> (error + headers) \<times> nat" where
  "signature_headers e w n =
     (if enable_security w then
        (case get_webhook_data e w n of
           (Inl err, n') \<Rightarrow> (Inl err, n')
         | (Inr data, n') \<Rightarrow>
             (case webhook_secret w of
                None \<Rightarrow> (Inl AuthenticationError, n')
              | Some secret \<Rightarrow>
                  (case json_dumps False None data of
                     Inl err \<Rightarrow> (Inl err, n')
                   | Inr msg \<Rightarrow>
                       (Inr [(WEBHOOK_SECRET_HEADER, HSig (Hmac_sha256_b64 secret msg))], n'))))
      else (Inr [], n))"

definition get_webhook_headers :: "env \<Rightarrow> webhook \<Rightarrow> nat \<Rightarrow> (error + headers) \<times> nat" where
  "get_webhook_headers e w n =
     (case signature_headers e w n of
        (Inl err, n') \<Rightarrow> (Inl err, n')
      | (Inr hs, n') \<Rightarrow>
          (if webhook_headers w \<noteq> [] then (Inr (add_header_rows (webhook_headers w) hs), n')
           else (Inr (add_header_rows (settings_headers e) hs), n')))"

text \<open>The header rows the resolution reads: the webhook's own when it has any, else the
  settings'.\<close>

definition selected_rows :: "env \<Rightarrow> webhook \<Rightarrow> hrow list" where
  "selected_rows e w = (if webhook_headers w \<noteq> [] then webhook_headers w else settings_headers e)"

text \<open>
  What the header rows leave in the mapping under one name: the value of the last row
  that has this key and a value, both not empty; \<open>None\<close> when no row has.
\<close>

fun last_row_value :: "string \<Rightarrow> hrow list \<Rightarrow> string option" where
  "last_row_value k [] = None"
| "last_row_value k (h # rows) =
     (case last_row_value k rows of
        Some v \<Rightarrow> Some v
      | None \<Rightarrow>
          (case hkey h of
             None \<Rightarrow> None
           | Some k' \<Rightarrow>
               (case hvalue h of
                  None \<Rightarrow> None
                | Some v \<Rightarrow> if k' = k \<and> k' \<noteq> [] \<and> v \<noteq> [] then Some v else None)))"

section \<open>The request log\<close>

datatype logged = Logged_text string | Logged_value pyval

record log_entry =
  log_url :: "string option"
  log_headers :: "string option"
  log_data :: logged
  log_response :: "string option"

text \<open>
  \<^verbatim>\<open>json.dumps(headers, indent=4)\<close>: the signature is a \<^verbatim>\<open>bytes\<close> object under Python 3
  (the file uses f-strings), which the encoder refuses.
\<close>

fun header_json :: "hval \<Rightarrow> pyval option" where
  "header_json (HStr s) = Some (PStr s)"
| "header_json (HSig g) = None"

fun headers_json :: "headers \<Rightarrow> pydict option" where
  "headers_json [] = Some []"
| "headers_json ((k, v) # hs) =
     (case header_json v of
        None \<Rightarrow> None
      | Some j \<Rightarrow> (case headers_json hs of None \<Rightarrow> None | Some d \<Rightarrow> Some ((k, j) # d)))"

definition dump_headers :: "headers \<Rightarrow> error + string option" where
  "dump_headers hs =
     (if hs = [] then Inr None
      else (case headers_json hs of
              None \<Rightarrow> Inl TypeError
            | Some d \<Rightarrow> Inr (Some (json_text (Some 4) 0 (PDict d)))))"

definition dump_data :: "pyval \<Rightarrow> error + logged" where
  "dump_data data =
     (case data of
        PDict d \<Rightarrow>
          (case json_dumps False (Some 4) data of
             Inl err \<Rightarrow> Inl err
           | Inr s \<Rightarrow> Inr (Logged_text s))
      | _ \<Rightarrow> Inr (Logged_value data))"

text \<open>A response is true when \<^verbatim>\<open>raise_for_status\<close> would not raise.\<close>

definition status_raises :: "nat \<Rightarrow> bool" where
  "status_raises st = (400 \<le> st \<and> st < 600)"

definition dump_response :: "nat \<times> pyval option \<Rightarrow> error + string option" where
  "dump_response res =
     (if status_raises (fst res) then Inr None
      else (case snd res of
              None \<Rightarrow> Inl JSONDecodeError
            | Some j \<Rightarrow>
                (case json_dumps False (Some 4) j of
                   Inl err \<Rightarrow> Inl err
                 | Inr s \<Rightarrow> Inr (Some s))))"

text \<open>
  The document \<^verbatim>\<open>log_request\<close> builds, or the error raised while building it (the fields
  are evaluated in the order written).
\<close>

definition build_log_entry ::
  "string option \<Rightarrow> headers \<Rightarrow> pyval \<Rightarrow> nat \<times> pyval option \<Rightarrow> error + log_entry" where
  "build_log_entry url hs data res =
     (case dump_headers hs of
        Inl err \<Rightarrow> Inl err
      | Inr h \<Rightarrow>
          (case dump_data data of
             Inl err \<Rightarrow> Inl err
           | Inr d \<Rightarrow>
               (case dump_response res of
                  Inl err \<Rightarrow> Inl err
                | Inr r \<Rightarrow>
                    Inr \<lparr>log_url = url, log_headers = h, log_data = d, log_response = r\<rparr>)))"

text \<open>
  \<^verbatim>\<open>log_request\<close>, called in pass \<open>i\<close> from the \<^verbatim>\<open>try\<close> block (\<open>h\<close> false) or from the
  \<^verbatim>\<open>except\<close> branch (\<open>h\<close> true): the entry it has stored, or the error it raises, while
  building the document or while storing it; an entry whose storing raised is not written.
\<close>

definition log_request ::
  "env \<Rightarrow> nat \<Rightarrow> bool \<Rightarrow> string option \<Rightarrow> headers \<Rightarrow> pyval \<Rightarrow> nat \<times> pyval option
     \<Rightarrow> error + log_entry" where
  "log_request e i h url hs data res =
     (case build_log_entry url hs data res of
        Inl err \<Rightarrow> Inl err
      | Inr entry \<Rightarrow> (case log_insert e i h of Some err \<Rightarrow> Inl err | None \<Rightarrow> Inr entry))"

section \<open>The delivery job\<close>

record request =
  req_method :: string
  req_url :: "string option"
  req_body :: string
  req_headers :: headers

text \<open>What a job does that the outside can see, in order.\<close>

datatype event =
    Ev_request nat request
  | Ev_log log_entry
  | Ev_sleep nat

text \<open>How one pass of the loop body ends.\<close>

datatype control = Break | Continue | Raise error

type_synonym response = "nat \<times> pyval option"

text \<open>
  The \<^verbatim>\<open>except\<close> branch of attempt \<open>i\<close>, entered with the caught error. \<open>r\<close> is the
  variable \<^verbatim>\<open>r\<close>: \<open>None\<close> while no assignment to it has completed, in which case reading it
  for the call of \<^verbatim>\<open>log_request\<close> raises. An error raised inside the branch leaves the
  function at once.
\<close>

definition except_branch ::
  "env \<Rightarrow> string option \<Rightarrow> headers \<Rightarrow> pyval \<Rightarrow> nat \<Rightarrow> error \<Rightarrow> response option \<Rightarrow> event list
     \<Rightarrow> control \<times> response option \<times> event list" where
  "except_branch e url hs data i caught r tr =
     (case r of
        None \<Rightarrow> (Raise UnboundLocalError, r, tr)
      | Some res \<Rightarrow>
          (case log_request e i True url hs data res of
             Inl err \<Rightarrow> (Raise err, r, tr)
           | Inr entry \<Rightarrow>
               (let tr' = tr @ [Ev_log entry, Ev_sleep (3 * i + 1)]
                in if i \<noteq> 2 then (Continue, r, tr') else (Raise caught, r, tr'))))"

text \<open>
  One pass of the loop body: the \<^verbatim>\<open>try\<close> block (serialise, send, \<^verbatim>\<open>raise_for_status\<close>,
  log, \<^verbatim>\<open>break\<close>) and, on any exception in it, the \<^verbatim>\<open>except\<close> branch.
\<close>

definition attempt ::
  "env \<Rightarrow> webhook \<Rightarrow> string option \<Rightarrow> headers \<Rightarrow> pyval \<Rightarrow> nat \<Rightarrow> response option \<Rightarrow> event list
     \<Rightarrow> control \<times> response option \<times> event list" where
  "attempt e w url hs data i r tr =
     (case json_dumps True None data of
        Inl err \<Rightarrow> except_branch e url hs data i err r tr
      | Inr body \<Rightarrow>
          (let tr1 = tr @ [Ev_request i
                      \<lparr>req_method = request_method w, req_url = url,
                       req_body = body, req_headers = hs\<rparr>]
           in case http_request e i of
                Transport_failure msg \<Rightarrow>
                  except_branch e url hs data i (ConnectionError msg) r tr1
              | Response st js \<Rightarrow>
                  (if status_raises st
                   then except_branch e url hs data i (HTTPError st) (Some (st, js)) tr1
                   else (case log_request e i False url hs data (st, js) of
                           Inl err \<Rightarrow> except_branch e url hs data i err (Some (st, js)) tr1
                         | Inr entry \<Rightarrow> (Break, Some (st, js), tr1 @ [Ev_log entry])))))"

text \<open>\<^verbatim>\<open>for i in range(3)\<close>, over the list of indices still to run.\<close>

fun deliver ::
  "env \<Rightarrow> webhook \<Rightarrow> string option \<Rightarrow> headers \<Rightarrow> pyval \<Rightarrow> nat list \<Rightarrow> response option
     \<Rightarrow> event list \<Rightarrow> error option \<times> event list" where
  "deliver e w url hs data [] r tr = (None, tr)"
| "deliver e w url hs data (i # rest) r tr =
     (case attempt e w url hs data i r tr of
        (Break, r', tr') \<Rightarrow> (None, tr')
      | (Raise err, r', tr') \<Rightarrow> (Some err, tr')
      | (Continue, r', tr') \<Rightarrow> deliver e w url hs data rest r' tr')"

text \<open>
  What a job leaves behind: the error it raised to the worker (if any), its events, and the
  number of productions it made.
\<close>

record job_result =
  outcome :: "error option"
  trace :: "event list"
  calls :: nat

definition resolve_url :: "env \<Rightarrow> webhook \<Rightarrow> string option" where
  "resolve_url e w = (if str_truthy (request_url w) then request_url w else settings_url e)"

definition enqueue_bulk_webhook :: "env \<Rightarrow> webhook \<Rightarrow> job_result" where
  "enqueue_bulk_webhook e w =
     (case get_webhook_headers e w 0 of
        (Inl err, n) \<Rightarrow> \<lparr>outcome = Some err, trace = [], calls = n\<rparr>
      | (Inr hs, n) \<Rightarrow>
          (case get_webhook_data e w n of
             (Inl err, n') \<Rightarrow> \<lparr>outcome = Some err, trace = [], calls = n'\<rparr>
           | (Inr data, n') \<Rightarrow>
               if \<not> py_truthy data then \<lparr>outcome = None, trace = [], calls = n'\<rparr>
               else
                 (case deliver e w (resolve_url e w) hs data [0..<3] None [] of
                    (out, tr) \<Rightarrow> \<lparr>outcome = out, trace = tr, calls = n'\<rparr>)))"

text \<open>
  \<^verbatim>\<open>BulkWebhook.send\<close>, the manual trigger: it produces the payload once to see whether
  there is any, and then enqueues the job by name (\<open>Inr True\<close>); the job starts over.
\<close>

definition send :: "env \<Rightarrow> webhook \<Rightarrow> (error + bool) \<times> nat" where
  "send e w =
     (if filter_meta w \<noteq> None \<and> filters w = None
      then (Inl (ValidationError [] ''Please set filters value in Report Filter table.''), 0)
      else (case get_webhook_data e w 0 of
              (Inl err, n) \<Rightarrow> (Inl err, n)
            | (Inr data, n) \<Rightarrow> (Inr (py_truthy data), n)))"

text \<open>
  An attempt fails when the transport raises or the status makes \<^verbatim>\<open>raise_for_status\<close>
  raise; \<open>attempt_error\<close> is the exception the \<^verbatim>\<open>try\<close> block raises then.
\<close>

definition attempt_fails :: "http_outcome \<Rightarrow> bool" where
  "attempt_fails out =
     (case out of Transport_failure m \<Rightarrow> True | Response st js \<Rightarrow> status_raises st)"

definition attempt_error :: "http_outcome \<Rightarrow> error" where
  "attempt_error out =
     (case out of Transport_failure m \<Rightarrow> ConnectionError m | Response st js \<Rightarrow> HTTPError st)"

text \<open>Views of a trace.\<close>

fun requests_of :: "event list \<Rightarrow> request list" where
  "requests_of [] = []"
| "requests_of (Ev_request i rq # tr) = rq # requests_of tr"
| "requests_of (ev # tr) = requests_of tr"

fun logs_of :: "event list \<Rightarrow> log_entry list" where
  "logs_of [] = []"
| "logs_of (Ev_log l # tr) = l # logs_of tr"
| "logs_of (ev # tr) = logs_of tr"

fun sleeps_of :: "event list \<Rightarrow> nat list" where
  "sleeps_of [] = []"
| "sleeps_of (Ev_sleep d # tr) = d # sleeps_of tr"
| "sleeps_of (ev # tr) = sleeps_of tr"

text \<open>The attempts and the back-offs of a trace, in order, without the log writes.\<close>

datatype step = Attempt nat | Backoff nat

fun schedule :: "event list \<Rightarrow> step list" where
  "schedule [] = []"
| "schedule (Ev_request i rq # tr) = Attempt i # schedule tr"
| "schedule (Ev_sleep d # tr) = Backoff d # schedule tr"
| "schedule (Ev_log l # tr) = schedule tr"

section \<open>Mandatory filters\<close>

text \<open>
  \<^verbatim>\<open>filters.get(meta["fieldname"])\<close>: a missing \<^verbatim>\<open>fieldname\<close> is a \<^verbatim>\<open>KeyError\<close>, a list or a
  dict cannot be a key, and any other value that is no string is the key of nothing.
\<close>

definition filter_value :: "pydict \<Rightarrow> pydict \<Rightarrow> error + pyval" where
  "filter_value fs meta =
     (case map_of meta ''fieldname'' of
        None \<Rightarrow> Inl (KeyError ''fieldname'')
      | Some (PStr f) \<Rightarrow> Inr (dict_get fs f)
      | Some (PList xs) \<Rightarrow> Inl TypeError
      | Some (PDict d) \<Rightarrow> Inl TypeError
      | Some other \<Rightarrow> Inr PNone)"

text \<open>One pass of the loop over \<^verbatim>\<open>filter_meta\<close>: the labels it appends.\<close>

definition check_meta :: "pydict \<Rightarrow> pydict \<Rightarrow> error + pyval list" where
  "check_meta fs meta =
     (if py_truthy (dict_get meta ''reqd'') then
        (case filter_value fs meta of
           Inl err \<Rightarrow> Inl err
         | Inr v \<Rightarrow>
             if py_truthy v then Inr []
             else (case map_of meta ''label'' of
                     None \<Rightarrow> Inl (KeyError ''label'')
                   | Some l \<Rightarrow> Inr [l]))
      else Inr [])"

fun throw_list :: "pydict \<Rightarrow> pydict list \<Rightarrow> error + pyval list" where
  "throw_list fs [] = Inr []"
| "throw_list fs (meta # metas) =
     (case check_meta fs meta of
        Inl err \<Rightarrow> Inl err
      | Inr ls \<Rightarrow> (case throw_list fs metas of Inl err \<Rightarrow> Inl err | Inr rest \<Rightarrow> Inr (ls @ rest)))"

text \<open>\<^verbatim>\<open>" <li>".join(throw_list)\<close> needs strings.\<close>

fun strings_of :: "pyval list \<Rightarrow> string list option" where
  "strings_of [] = Some []"
| "strings_of (PStr s # vs) = (case strings_of vs of None \<Rightarrow> None | Some ss \<Rightarrow> Some (s # ss))"
| "strings_of (v # vs) = None"

definition missing_filters_msg :: "string list \<Rightarrow> string" where
  "missing_filters_msg labels =
     ''Following Report Filters have missing values:'' @ ''<br><br><ul><li>''
       @ join '' <li>'' labels @ ''</ul>''"

text \<open>The parsed \<^verbatim>\<open>filters\<close> and \<^verbatim>\<open>filter_meta\<close>, or \<^verbatim>\<open>{}\<close> for an empty field.\<close>

definition filters_of :: "webhook \<Rightarrow> pydict" where
  "filters_of w = (case filters w of None \<Rightarrow> [] | Some d \<Rightarrow> d)"

definition metas_of :: "webhook \<Rightarrow> pydict list" where
  "metas_of w = (case filter_meta w of None \<Rightarrow> [] | Some ms \<Rightarrow> ms)"

definition validate_mandatory_fields :: "webhook \<Rightarrow> error + unit" where
  "validate_mandatory_fields w =
     (case throw_list (filters_of w) (metas_of w) of
        Inl err \<Rightarrow> Inl err
      | Inr ls \<Rightarrow>
          if ls = [] then Inr ()
          else (case strings_of ls of
                  None \<Rightarrow> Inl TypeError
                | Some labels \<Rightarrow>
                    Inl (ValidationError ''Missing Filters Required''
                           (missing_filters_msg labels))))"

text \<open>A filter-metadata entry that names its field and its label, both as strings.\<close>

definition meta_ok :: "pydict \<Rightarrow> bool" where
  "meta_ok meta =
     (case map_of meta ''fieldname'' of
        Some (PStr f) \<Rightarrow> (case map_of meta ''label'' of Some (PStr l) \<Rightarrow> True | _ \<Rightarrow> False)
      | _ \<Rightarrow> False)"

section \<open>Autocompletion items\<close>

text \<open>
  The objects of the script namespace by what the \<^verbatim>\<open>isinstance\<close> tests of \<^verbatim>\<open>get_keys\<close>
  can tell apart: a dict (or \<^verbatim>\<open>NamespaceDict\<close>) with its entries, a class derived from
  \<^verbatim>\<open>Exception\<close>, a module, a function or method, any other class, any other value.
\<close>

datatype obj =
    Dict_obj "(string \<times> obj) list"
  | Exception_class
  | Module_obj
  | Function_obj
  | Class_obj
  | Plain_obj

text \<open>The \<^verbatim>\<open>else\<close> branch of \<^verbatim>\<open>get_keys\<close>: the score of a value that is not descended into.\<close>

fun leaf_score :: "obj \<Rightarrow> nat" where
  "leaf_score Exception_class = 0"
| "leaf_score Module_obj = 10"
| "leaf_score Function_obj = 9"
| "leaf_score Class_obj = 8"
| "leaf_score (Dict_obj d) = 7"
| "leaf_score Plain_obj = 6"

definition starts_with_underscore :: "string \<Rightarrow> bool" where
  "starts_with_underscore key = (case key of [] \<Rightarrow> False | c # cs \<Rightarrow> c = CHR ''_'')"

function (sequential) get_keys :: "(string \<times> obj) list \<Rightarrow> (string \<times> nat) list" where
  "get_keys [] = []"
| "get_keys ((key, Dict_obj d) # rest) =
     (if starts_with_underscore key then get_keys rest
      else if d \<noteq> [] then
        (if key = ''form_dict'' then (''form_dict'', 7) # get_keys rest
         else map (\<lambda>(subkey, score). (key @ ''.'' @ subkey, score)) (get_keys d) @ get_keys rest)
      else (key, leaf_score (Dict_obj d)) # get_keys rest)"
| "get_keys ((key, v) # rest) =
     (if starts_with_underscore key then get_keys rest
      else (key, leaf_score v) # get_keys rest)"
  by pat_completeness auto
termination
  by (relation "measure (size_list (size_prod (\<lambda>k. 0) size))") auto



text \<open>
  \<^verbatim>\<open>get_autocompletion_items\<close> with the cache passed through: the items and the cache after
  the call. An empty cached list counts as no cache.
\<close>

definition get_autocompletion_items ::
  "(string \<times> obj) list \<Rightarrow> (string \<times> nat) list option
     \<Rightarrow> (string \<times> nat) list \<times> (string \<times> nat) list option" where
  "get_autocompletion_items safe_globals cache =
     (case cache of
        None \<Rightarrow> (get_keys safe_globals, Some (get_keys safe_globals))
      | Some items \<Rightarrow>
          if items = [] then (get_keys safe_globals, Some (get_keys safe_globals))
          else (items, Some items))"

section \<open>Sample configurations and environments\<close>

text \<open>
  An environment in which every producer returns nothing, no template renders, the
  endpoint answers 200 with an empty JSON object and every log entry is stored; and a webhook on the \<^verbatim>\<open>Method\<close> source
  with no template, no headers and no signature. The samples below change a few fields.
\<close>

definition quiet_env :: env where
  "quiet_env =
     \<lparr>report_get_data = (\<lambda>n. Inr []),
      call_method = (\<lambda>n. Inr PNone),
      run_script = (\<lambda>n. Inr []),
      render_template = (\<lambda>t ctx. Inl TemplateError),
      json_loads = (\<lambda>s. Inl JSONDecodeError),
      http_request = (\<lambda>i. Response 200 (Some (PDict []))),
      log_insert = (\<lambda>i h. None),
      settings_url = Some ''https://example.com/hook'',
      settings_headers = []\<rparr>"

definition method_hook :: webhook where
  "method_hook =
     \<lparr>request_url = None,
      request_method = ''POST'',
      source = ''Method'',
      webhook_json = None,
      webhook_headers = [],
      enable_security = False,
      webhook_secret = None,
      send_if_data = False,
      script_return_variable = [],
      filters = None,
      filter_meta = None\<rparr>"

text \<open>The method of the spec's scenario: it returns \<^verbatim>\<open>[{"a": 1}]\<close>.\<close>

definition one_record_env :: env where
  "one_record_env = quiet_env\<lparr>call_method := (\<lambda>n. Inr (PList [PDict [(''a'', PInt 1)]]))\<rparr>"

text \<open>
  A template without placeholders renders to itself; \<^verbatim>\<open>json.loads\<close> is given at the one text
  it is asked about.
\<close>

definition literal_env :: env where
  "literal_env =
     one_record_env
       \<lparr>render_template := (\<lambda>t ctx. Inr t),
        json_loads := (\<lambda>s. if s = ''{\"ok\": true}'' then Inr (PDict [(''ok'', PBool True)])
                            else Inl JSONDecodeError)\<rparr>"

definition literal_hook :: webhook where
  "literal_hook = method_hook\<lparr>webhook_json := Some ''{\"ok\": true}''\<rparr>"

text \<open>
  A template that reports the number of records, \<^verbatim>\<open>{"n": {{ data|length }}}\<close>, over a method
  that returns one record when first called and two from then on.
\<close>

definition count_template :: string where
  "count_template = ''{\"n\": {{ data|length }}}''"

definition render_count :: "string \<Rightarrow> pyval \<Rightarrow> error + string" where
  "render_count t ctx =
     (if t = count_template then
        (case dict_get (case ctx of PDict d \<Rightarrow> d | _ \<Rightarrow> []) ''data'' of
           PList xs \<Rightarrow> Inr (''{\"n\": '' @ dec_nat (length xs) @ ''}'')
         | _ \<Rightarrow> Inl TemplateError)
      else Inl TemplateError)"

definition loads_count :: "string \<Rightarrow> error + pyval" where
  "loads_count s =
     (if s = ''{\"n\": 1}'' then Inr (PDict [(''n'', PInt 1)])
      else if s = ''{\"n\": 2}'' then Inr (PDict [(''n'', PInt 2)])
      else Inl JSONDecodeError)"

definition growing_env :: env where
  "growing_env =
     quiet_env
       \<lparr>call_method := (\<lambda>n. if n = 0 then Inr (PList [PDict [(''a'', PInt 1)]])
                             else Inr (PList [PDict [(''a'', PInt 1)], PDict [(''a'', PInt 2)]])),
        render_template := render_count,
        json_loads := loads_count\<rparr>"

definition signed_hook :: webhook where
  "signed_hook =
     method_hook\<lparr>webhook_json := Some count_template, enable_security := True,
                 webhook_secret := Some ''s3cret''\<rparr>"

text \<open>Endpoints: one that refuses the connection, one that always answers 500, one that
  answers 500 twice and then 200, one that answers 500 and then 200.\<close>

definition refusing_env :: env where
  "refusing_env = literal_env\<lparr>http_request := (\<lambda>i. Transport_failure ''connection refused'')\<rparr>"

definition failing_env :: env where
  "failing_env = literal_env\<lparr>http_request := (\<lambda>i. Response 500 None)\<rparr>"

definition flaky_env :: env where
  "flaky_env =
     literal_env\<lparr>http_request := (\<lambda>i. if i < 2 then Response 500 None
                                        else Response 200 (Some (PDict [])))\<rparr>"

definition recovering_env :: env where
  "recovering_env =
     literal_env\<lparr>http_request := (\<lambda>i. if i < 1 then Response 500 None
                                        else Response 200 (Some (PDict [])))\<rparr>"

text \<open>Header rows: a webhook with one good row and one without a value, and settings with
  a row of their own.\<close>

definition own_headers_hook :: webhook where
  "own_headers_hook =
     literal_hook\<lparr>webhook_headers :=
       [\<lparr>hkey = Some ''X-Tenant'', hvalue = Some ''acme''\<rparr>,
        \<lparr>hkey = Some ''X-Empty'', hvalue = None\<rparr>]\<rparr>"

definition global_headers_env :: env where
  "global_headers_env =
     literal_env\<lparr>settings_headers := [\<lparr>hkey = Some ''Authorization'', hvalue = Some ''token abc''\<rparr>]\<rparr>"

text \<open>A report webhook with three required filters: one given as the empty string, one
  not given, one given.\<close>

definition filtered_hook :: webhook where
  "filtered_hook =
     method_hook
       \<lparr>source := ''Report'',
        filters := Some [(''company'', PStr []), (''year'', PInt 2020)],
        filter_meta := Some
          [[(''fieldname'', PStr ''company''), (''label'', PStr ''Company''), (''reqd'', PInt 1)],
           [(''fieldname'', PStr ''to_date''), (''label'', PStr ''To Date''), (''reqd'', PInt 1)],
           [(''fieldname'', PStr ''year''), (''label'', PStr ''Year''), (''reqd'', PInt 1)]]\<rparr>"

text \<open>
  Log stores that fail: one where storing the entry of the first \<^verbatim>\<open>try\<close> block raises
  (and nothing else does) behind an endpoint that answers 200; one where storing raises
  only in the \<^verbatim>\<open>except\<close> branch of the third pass, behind an endpoint that answers 500;
  and one like the first behind an endpoint that answers 200 once and then times out.
\<close>

definition insert_fails_once_env :: env where
  "insert_fails_once_env =
     literal_env\<lparr>log_insert := (\<lambda>i h. if i = 0 \<and> \<not> h then Some (DatabaseError ''lock wait timeout'')
                                      else None)\<rparr>"

definition insert_fails_last_env :: env where
  "insert_fails_last_env =
     failing_env\<lparr>log_insert := (\<lambda>i h. if i = 2 \<and> h then Some (DatabaseError ''lock wait timeout'')
                                      else None)\<rparr>"

definition stale_env :: env where
  "stale_env =
     insert_fails_once_env
       \<lparr>http_request := (\<lambda>i. if i = 0 then Response 200 (Some (PDict [(''id'', PInt 7)]))
                              else Transport_failure ''timed out'')\<rparr>"

text \<open>Signed webhooks with header rows named like the signature header: two rows with
  values, and one row with an empty value.\<close>

definition overridden_hook :: webhook where
  "overridden_hook =
     signed_hook\<lparr>webhook_headers :=
       [\<lparr>hkey = Some ''X-Frappe-Webhook-Signature'', hvalue = Some ''first''\<rparr>,
        \<lparr>hkey = Some ''X-Frappe-Webhook-Signature'', hvalue = Some ''override''\<rparr>]\<rparr>"

definition blank_override_hook :: webhook where
  "blank_override_hook =
     signed_hook\<lparr>webhook_headers :=
       [\<lparr>hkey = Some ''X-Frappe-Webhook-Signature'', hvalue = Some []\<rparr>]\<rparr>"

section \<open>The shape of a delivery job\<close>

text \<open>
  Facts about the job that the statements below share: how many productions each call
  makes, the four ways a job can end before or after sending, and the seven traces the
  retry loop can leave.
\<close>

lemma upt3: "[0..<3] = [0, 1, 2]"
  by (simp add: upt_rec)

lemma json_dumps_default: "json_dumps True ind v = Inr (json_text ind 0 v)"
  by (simp add: json_dumps_def)

lemma build_log_entry_failed:
  "status_raises st \<Longrightarrow>
   build_log_entry url hs data (st, js) =
     (case dump_headers hs of
        Inl err \<Rightarrow> Inl err
      | Inr h \<Rightarrow>
          (case dump_data data of
             Inl err \<Rightarrow> Inl err
           | Inr d \<Rightarrow> Inr \<lparr>log_url = url, log_headers = h, log_data = d, log_response = None\<rparr>))"
  by (simp add: build_log_entry_def dump_response_def split: sum.splits)

lemma calls_data:
  "snd (get_webhook_data e w n) =
     (if source w \<noteq> ''Report'' \<and> source w \<noteq> ''Method'' \<and> source w \<noteq> ''Script'' then n else Suc n)"
  by (simp add: get_webhook_data_def split: sum.splits)

lemma data_ok_calls:
  "get_webhook_data e w n = (Inr data, n') \<Longrightarrow> n' = Suc n"
  by (simp add: get_webhook_data_def split: sum.splits if_splits)

lemma calls_signature:
  "snd (signature_headers e w n) = (if enable_security w then snd (get_webhook_data e w n) else n)"
  by (simp add: signature_headers_def split: prod.splits sum.splits option.splits)

lemma calls_headers: "snd (get_webhook_headers e w n) = snd (signature_headers e w n)"
  by (simp add: get_webhook_headers_def split: prod.splits sum.splits)

lemma headers_ok_calls:
  "get_webhook_headers e w n = (Inr hs, n') \<Longrightarrow> n' = (if enable_security w then Suc n else n)"
  by (auto simp: get_webhook_headers_def signature_headers_def
      split: prod.splits sum.splits option.splits if_splits dest: data_ok_calls)

lemma job_cases:
  obtains
    (headers_raise) err n where
      "get_webhook_headers e w 0 = (Inl err, n)"
      "enqueue_bulk_webhook e w = \<lparr>outcome = Some err, trace = [], calls = n\<rparr>"
  | (data_raise) hs n err n' where
      "get_webhook_headers e w 0 = (Inr hs, n)"
      "get_webhook_data e w n = (Inl err, n')"
      "enqueue_bulk_webhook e w = \<lparr>outcome = Some err, trace = [], calls = n'\<rparr>"
  | (no_data) hs n data where
      "get_webhook_headers e w 0 = (Inr hs, n)"
      "get_webhook_data e w n = (Inr data, Suc n)"
      "\<not> py_truthy data"
      "enqueue_bulk_webhook e w = \<lparr>outcome = None, trace = [], calls = Suc n\<rparr>"
  | (sent) hs n data where
      "get_webhook_headers e w 0 = (Inr hs, n)"
      "get_webhook_data e w n = (Inr data, Suc n)"
      "py_truthy data"
      "enqueue_bulk_webhook e w =
         \<lparr>outcome = fst (deliver e w (resolve_url e w) hs data [0, 1, 2] None []),
          trace = snd (deliver e w (resolve_url e w) hs data [0, 1, 2] None []),
          calls = Suc n\<rparr>"
proof -
  obtain hr n where h: "get_webhook_headers e w 0 = (hr, n)"
    by (cases "get_webhook_headers e w 0")
  obtain dr n' where d: "get_webhook_data e w n = (dr, n')"
    by (cases "get_webhook_data e w n")
  show ?thesis
  proof (cases hr)
    case (Inl err)
    with h have "enqueue_bulk_webhook e w = \<lparr>outcome = Some err, trace = [], calls = n\<rparr>"
      by (simp add: enqueue_bulk_webhook_def)
    with h Inl show ?thesis using headers_raise by simp
  next
    case hs: (Inr hs)
    show ?thesis
    proof (cases dr)
      case (Inl err)
      with h d hs have "enqueue_bulk_webhook e w = \<lparr>outcome = Some err, trace = [], calls = n'\<rparr>"
        by (simp add: enqueue_bulk_webhook_def)
      with h d hs Inl show ?thesis using data_raise by simp
    next
      case (Inr data)
      with d have n': "n' = Suc n" using data_ok_calls by simp
      show ?thesis
      proof (cases "py_truthy data")
        case False
        with h d hs Inr n' have "enqueue_bulk_webhook e w = \<lparr>outcome = None, trace = [], calls = Suc n\<rparr>"
          by (simp add: enqueue_bulk_webhook_def)
        with h d hs Inr n' False show ?thesis using no_data by simp
      next
        case True
        with h d hs Inr n' have "enqueue_bulk_webhook e w =
         \<lparr>outcome = fst (deliver e w (resolve_url e w) hs data [0, 1, 2] None []),
          trace = snd (deliver e w (resolve_url e w) hs data [0, 1, 2] None []),
          calls = Suc n\<rparr>"
          by (simp add: enqueue_bulk_webhook_def upt3 split: prod.splits del: deliver.simps)
        with h d hs Inr n' True show ?thesis using sent by simp
      qed
    qed
  qed
qed

lemma job_calls_le:
  "calls (enqueue_bulk_webhook e w) \<le> (if enable_security w then 2 else 1)"
proof (cases e w rule: job_cases)
  case (headers_raise err n)
  then show ?thesis
    using calls_headers [of e w 0] calls_signature [of e w 0] calls_data [of e w 0]
    by (simp split: if_splits)
next
  case (data_raise hs n err n')
  then show ?thesis
    using headers_ok_calls [of e w 0 hs n] calls_data [of e w n]
    by (simp split: if_splits)
next
  case (no_data hs n data)
  then show ?thesis
    using headers_ok_calls [of e w 0 hs n] by (simp split: if_splits)
next
  case (sent hs n data)
  then show ?thesis
    using headers_ok_calls [of e w 0 hs n] by (simp split: if_splits)
qed

lemma job_sent_calls:
  assumes "requests_of (trace (enqueue_bulk_webhook e w)) \<noteq> []"
  shows "calls (enqueue_bulk_webhook e w) = (if enable_security w then 2 else 1)"
proof (cases e w rule: job_cases)
  case (sent hs n data)
  then show ?thesis
    using headers_ok_calls [of e w 0 hs n] by (simp split: if_splits)
qed (use assms in simp_all)

lemma send_calls: "snd (send e w) \<le> 1"
  using calls_data [of e w 0]
  by (auto simp: send_def split: prod.splits sum.splits if_splits)


lemmas loop_defs = attempt_def except_branch_def json_dumps_default Let_def

text \<open>One pass of the loop, whatever \<open>r\<close> holds and whatever the log store does: it raises
  without a log entry, or breaks after a log entry (only on a success status), or writes a
  log entry, sleeps and then goes on or, in the last pass, raises.\<close>

lemma attempt_step:
  fixes e w url hs data
  defines "rq \<equiv> \<lparr>req_method = request_method w, req_url = url,
                   req_body = json_text None 0 data, req_headers = hs\<rparr>"
  shows
    "(\<exists>err r'. attempt e w url hs data i r tr = (Raise err, r', tr @ [Ev_request i rq]))
     \<or> (\<not> attempt_fails (http_request e i) \<and>
        (\<exists>l r'. attempt e w url hs data i r tr = (Break, r', tr @ [Ev_request i rq, Ev_log l])))
     \<or> (\<exists>l r' err.
          (attempt_fails (http_request e i) \<longrightarrow> err = attempt_error (http_request e i)) \<and>
          attempt e w url hs data i r tr =
            (if i \<noteq> 2 then Continue else Raise err, r',
             tr @ [Ev_request i rq, Ev_log l, Ev_sleep (3 * i + 1)]))"
proof (cases "http_request e i")
  case (Transport_failure m)
  show ?thesis
  proof (cases r)
    case None
    with Transport_failure show ?thesis by (simp add: loop_defs rq_def)
  next
    case (Some res)
    with Transport_failure show ?thesis
      by (cases "log_request e i True url hs data res")
         (auto simp: loop_defs attempt_fails_def attempt_error_def rq_def)
  qed
next
  case (Response st js)
  show ?thesis
  proof (cases "status_raises st")
    case True
    with Response show ?thesis
      by (cases "log_request e i True url hs data (st, js)")
         (auto simp: loop_defs attempt_fails_def attempt_error_def rq_def)
  next
    case False
    with Response show ?thesis
      by (cases "log_request e i False url hs data (st, js)";
          cases "log_request e i True url hs data (st, js)")
         (auto simp: loop_defs attempt_fails_def rq_def)
  qed
qed

text \<open>The seven traces of the loop.\<close>

lemma deliver_shape:
  fixes e w url hs data
  defines "rq \<equiv> \<lparr>req_method = request_method w, req_url = url,
                   req_body = json_text None 0 data, req_headers = hs\<rparr>"
  defines "D \<equiv> deliver e w url hs data [0, 1, 2] None []"
  defines "f \<equiv> (\<lambda>i. attempt_fails (http_request e i))"
  shows
    "(\<exists>err. D = (Some err, [Ev_request 0 rq]))
     \<or> (\<exists>l0. \<not> f 0 \<and> D = (None, [Ev_request 0 rq, Ev_log l0]))
     \<or> (\<exists>err l0. D = (Some err, [Ev_request 0 rq, Ev_log l0, Ev_sleep 1, Ev_request 1 rq]))
     \<or> (\<exists>l0 l1. \<not> f 1
            \<and> D = (None, [Ev_request 0 rq, Ev_log l0, Ev_sleep 1, Ev_request 1 rq, Ev_log l1]))
     \<or> (\<exists>err l0 l1.
            D = (Some err, [Ev_request 0 rq, Ev_log l0, Ev_sleep 1, Ev_request 1 rq, Ev_log l1,
                            Ev_sleep 4, Ev_request 2 rq]))
     \<or> (\<exists>l0 l1 l2. \<not> f 2
            \<and> D = (None, [Ev_request 0 rq, Ev_log l0, Ev_sleep 1, Ev_request 1 rq, Ev_log l1,
                           Ev_sleep 4, Ev_request 2 rq, Ev_log l2]))
     \<or> (\<exists>err l0 l1 l2. (f 2 \<longrightarrow> err = attempt_error (http_request e 2))
            \<and> D = (Some err,
                    [Ev_request 0 rq, Ev_log l0, Ev_sleep 1, Ev_request 1 rq, Ev_log l1,
                     Ev_sleep 4, Ev_request 2 rq, Ev_log l2, Ev_sleep 7]))"
proof -
  consider
    (raise0) err r' where "attempt e w url hs data 0 None [] = (Raise err, r', [Ev_request 0 rq])"
  | (break0) l r' where "\<not> f 0"
      "attempt e w url hs data 0 None [] = (Break, r', [Ev_request 0 rq, Ev_log l])"
  | (cont0) l0 r0 where
      "attempt e w url hs data 0 None [] =
         (Continue, r0, [Ev_request 0 rq, Ev_log l0, Ev_sleep 1])"
    using attempt_step [where e=e and w=w and url=url and hs=hs and data=data and i=0
        and r=None and tr="[]"]
    unfolding rq_def f_def by auto
  then show ?thesis
  proof cases
    case raise0
    then show ?thesis by (simp add: D_def)
  next
    case break0
    then show ?thesis by (simp add: D_def)
  next
    case (cont0 l0 r0)
    define t1 where "t1 = [Ev_request 0 rq, Ev_log l0, Ev_sleep 1]"
    have D1: "D = deliver e w url hs data [1, 2] r0 t1"
      using cont0 by (simp add: D_def t1_def)
    consider
      (raise1) err r' where
        "attempt e w url hs data 1 r0 t1 = (Raise err, r', t1 @ [Ev_request 1 rq])"
    | (break1) l r' where "\<not> f 1"
        "attempt e w url hs data 1 r0 t1 = (Break, r', t1 @ [Ev_request 1 rq, Ev_log l])"
    | (cont1) l1 r1 where
        "attempt e w url hs data 1 r0 t1 =
           (Continue, r1, t1 @ [Ev_request 1 rq, Ev_log l1, Ev_sleep 4])"
      using attempt_step [where e=e and w=w and url=url and hs=hs and data=data and i=1
          and r=r0 and tr=t1]
      unfolding rq_def f_def by auto
    then show ?thesis
    proof cases
      case raise1
      with D1 show ?thesis by (simp add: t1_def)
    next
      case break1
      with D1 show ?thesis by (simp add: t1_def)
    next
      case (cont1 l1 r1)
      define t2 where "t2 = t1 @ [Ev_request 1 rq, Ev_log l1, Ev_sleep 4]"
      have D2: "D = deliver e w url hs data [2] r1 t2"
        using D1 cont1 by (simp add: t2_def)
      consider
        (raise2) err r' where
          "attempt e w url hs data 2 r1 t2 = (Raise err, r', t2 @ [Ev_request 2 rq])"
      | (break2) l r' where "\<not> f 2"
          "attempt e w url hs data 2 r1 t2 = (Break, r', t2 @ [Ev_request 2 rq, Ev_log l])"
      | (last2) l2 r2 err where "f 2 \<longrightarrow> err = attempt_error (http_request e 2)"
          "attempt e w url hs data 2 r1 t2 =
             (Raise err, r2, t2 @ [Ev_request 2 rq, Ev_log l2, Ev_sleep 7])"
        using attempt_step [where e=e and w=w and url=url and hs=hs and data=data and i=2
            and r=r1 and tr=t2]
        unfolding rq_def f_def by auto
      then show ?thesis
      proof cases
        case raise2
        with D2 show ?thesis by (simp add: t2_def t1_def)
      next
        case break2
        with D2 show ?thesis by (simp add: t2_def t1_def)
      next
        case last2
        with D2 show ?thesis by (simp add: t2_def t1_def)
      qed
    qed
  qed
qed

lemma job_requests_le3:
  "length (requests_of (trace (enqueue_bulk_webhook e w))) \<le> 3"
proof (cases e w rule: job_cases)
  case (sent hs n data)
  show ?thesis
    using deliver_shape [of e w "resolve_url e w" hs data] sent(4)
    by (elim disjE exE conjE) simp_all
qed simp_all

lemma job_schedule:
  "prefix (schedule (trace (enqueue_bulk_webhook e w)))
     [Attempt 0, Backoff (3 * 0 + 1), Attempt 1, Backoff (3 * 1 + 1), Attempt 2, Backoff (3 * 2 + 1)]"
proof (cases e w rule: job_cases)
  case (sent hs n data)
  show ?thesis
    using deliver_shape [of e w "resolve_url e w" hs data] sent(4)
    by (elim disjE exE conjE) simp_all
qed simp_all

lemma job_backoff:
  assumes "i < length (logs_of (trace (enqueue_bulk_webhook e w)))"
    and "attempt_fails (http_request e i)"
  shows "i < length (sleeps_of (trace (enqueue_bulk_webhook e w))) \<and>
         sleeps_of (trace (enqueue_bulk_webhook e w)) ! i = 3 * i + 1"
proof (cases e w rule: job_cases)
  case (sent hs n data)
  show ?thesis
    using deliver_shape [of e w "resolve_url e w" hs data] sent(4) assms
    by (elim disjE exE conjE) (auto simp: less_Suc_eq numeral_2_eq_2)
qed (use assms in simp_all)

lemma job_request_headers:
  assumes "rq \<in> set (requests_of (trace (enqueue_bulk_webhook e w)))"
  shows "\<exists>n. get_webhook_headers e w 0 = (Inr (req_headers rq), n)"
proof (cases e w rule: job_cases)
  case (sent hs n data)
  have "req_headers rq = hs"
    using deliver_shape [of e w "resolve_url e w" hs data] sent(4) assms
    by (elim disjE exE conjE) auto
  with sent(1) show ?thesis by auto
qed (use assms in simp_all)

lemma job_logs_le_requests:
  "length (logs_of (trace (enqueue_bulk_webhook e w)))
     \<le> length (requests_of (trace (enqueue_bulk_webhook e w)))"
proof (cases e w rule: job_cases)
  case (sent hs n data)
  show ?thesis
    using deliver_shape [of e w "resolve_url e w" hs data] sent(4)
    by (elim disjE exE conjE) simp_all
qed simp_all

section \<open>The loop when every log entry is stored\<close>

text \<open>
  When storing a log entry never raises, \<^verbatim>\<open>log_request\<close> fails only while building the
  document, and then it fails the same way in the \<^verbatim>\<open>try\<close> block and in the \<^verbatim>\<open>except\<close>
  branch. Under that assumption a pass goes on to the next only after a failed attempt,
  \<open>r\<close> then holds a response of a failed status, and the traces of the loop are tied to
  which attempts failed.
\<close>

lemma log_request_stored:
  "(\<And>i h. log_insert e i h = None) \<Longrightarrow>
   log_request e i h url hs data res = build_log_entry url hs data res"
  by (simp add: log_request_def split: sum.splits)

lemmas stored_defs = loop_defs build_log_entry_failed

lemma attempt_later_stored:
  fixes e w url hs data h d
  assumes stored: "\<And>i h. log_insert e i h = None"
    and "status_raises (fst res)" "dump_headers hs = Inr h" "dump_data data = Inr d"
  defines "rq \<equiv> \<lparr>req_method = request_method w, req_url = url,
                   req_body = json_text None 0 data, req_headers = hs\<rparr>"
  defines "lf \<equiv> \<lparr>log_url = url, log_headers = h, log_data = d, log_response = None\<rparr>"
  shows
    "(attempt_fails (http_request e i) \<and>
        (\<exists>res'. status_raises (fst res') \<and>
           attempt e w url hs data i (Some res) tr =
             (if i \<noteq> 2 then Continue else Raise (attempt_error (http_request e i)),
              Some res', tr @ [Ev_request i rq, Ev_log lf, Ev_sleep (3 * i + 1)])))
     \<or> (\<not> attempt_fails (http_request e i) \<and>
        (\<exists>err r'. attempt e w url hs data i (Some res) tr = (Raise err, r', tr @ [Ev_request i rq])))
     \<or> (\<not> attempt_fails (http_request e i) \<and>
        (\<exists>l r'. attempt e w url hs data i (Some res) tr =
                  (Break, r', tr @ [Ev_request i rq, Ev_log l])))"
proof (cases "http_request e i")
  case (Transport_failure m)
  with assms(2-4) show ?thesis
    by (cases res) (auto simp: stored_defs log_request_stored [OF stored] attempt_fails_def attempt_error_def rq_def lf_def)
next
  case (Response st js)
  show ?thesis
  proof (cases "status_raises st")
    case True
    with Response assms(3,4) show ?thesis
      by (auto simp: stored_defs log_request_stored [OF stored] attempt_fails_def attempt_error_def rq_def lf_def)
  next
    case False
    with Response show ?thesis
      by (cases "build_log_entry url hs data (st, js)")
         (simp_all add: stored_defs log_request_stored [OF stored]
            attempt_fails_def rq_def)
  qed
qed

lemma attempt_first_stored:
  fixes e w url hs data
  assumes stored: "\<And>i h. log_insert e i h = None"
  defines "rq \<equiv> \<lparr>req_method = request_method w, req_url = url,
                   req_body = json_text None 0 data, req_headers = hs\<rparr>"
  shows
    "(\<exists>err r'. attempt e w url hs data 0 None [] = (Raise err, r', [Ev_request 0 rq]))
     \<or> (\<not> attempt_fails (http_request e 0) \<and>
        (\<exists>l r'. attempt e w url hs data 0 None [] = (Break, r', [Ev_request 0 rq, Ev_log l])))
     \<or> (attempt_fails (http_request e 0) \<and>
        (\<exists>res h d. status_raises (fst res) \<and> dump_headers hs = Inr h \<and> dump_data data = Inr d \<and>
           attempt e w url hs data 0 None [] =
             (Continue, Some res,
              [Ev_request 0 rq,
               Ev_log \<lparr>log_url = url, log_headers = h, log_data = d, log_response = None\<rparr>,
               Ev_sleep 1])))"
proof (cases "http_request e 0")
  case (Transport_failure m)
  then show ?thesis
    by (simp add: stored_defs log_request_stored [OF stored] rq_def)
next
  case (Response st js)
  show ?thesis
  proof (cases "status_raises st")
    case True
    with Response show ?thesis
      by (cases "dump_headers hs"; cases "dump_data data")
         (simp_all add: stored_defs log_request_stored [OF stored] attempt_fails_def rq_def)
  next
    case False
    with Response show ?thesis
      by (cases "build_log_entry url hs data (st, js)")
         (simp_all add: stored_defs log_request_stored [OF stored]
            attempt_fails_def rq_def)
  qed
qed

lemma deliver_shape_stored:
  fixes e w url hs data
  assumes stored: "\<And>i h. log_insert e i h = None"
  defines "rq \<equiv> \<lparr>req_method = request_method w, req_url = url,
                   req_body = json_text None 0 data, req_headers = hs\<rparr>"
  defines "D \<equiv> deliver e w url hs data [0, 1, 2] None []"
  defines "f \<equiv> (\<lambda>i. attempt_fails (http_request e i))"
  shows
    "(\<exists>err. D = (Some err, [Ev_request 0 rq]))
     \<or> (\<exists>l0. \<not> f 0 \<and> D = (None, [Ev_request 0 rq, Ev_log l0]))
     \<or> (\<exists>err l0. f 0 \<and> \<not> f 1 \<and> log_response l0 = None
            \<and> D = (Some err, [Ev_request 0 rq, Ev_log l0, Ev_sleep 1, Ev_request 1 rq]))
     \<or> (\<exists>l0 l1. f 0 \<and> \<not> f 1 \<and> log_response l0 = None
            \<and> D = (None, [Ev_request 0 rq, Ev_log l0, Ev_sleep 1, Ev_request 1 rq, Ev_log l1]))
     \<or> (\<exists>err l0 l1. f 0 \<and> f 1 \<and> \<not> f 2 \<and> log_response l0 = None \<and> log_response l1 = None
            \<and> D = (Some err, [Ev_request 0 rq, Ev_log l0, Ev_sleep 1, Ev_request 1 rq, Ev_log l1,
                               Ev_sleep 4, Ev_request 2 rq]))
     \<or> (\<exists>l0 l1 l2. f 0 \<and> f 1 \<and> \<not> f 2 \<and> log_response l0 = None \<and> log_response l1 = None
            \<and> D = (None, [Ev_request 0 rq, Ev_log l0, Ev_sleep 1, Ev_request 1 rq, Ev_log l1,
                           Ev_sleep 4, Ev_request 2 rq, Ev_log l2]))
     \<or> (\<exists>l0 l1 l2. f 0 \<and> f 1 \<and> f 2 \<and> log_response l0 = None \<and> log_response l1 = None
            \<and> log_response l2 = None
            \<and> D = (Some (attempt_error (http_request e 2)),
                    [Ev_request 0 rq, Ev_log l0, Ev_sleep 1, Ev_request 1 rq, Ev_log l1,
                     Ev_sleep 4, Ev_request 2 rq, Ev_log l2, Ev_sleep 7]))"
proof -
  consider
    (raise0) err r' where "attempt e w url hs data 0 None [] = (Raise err, r', [Ev_request 0 rq])"
  | (break0) l r' where "\<not> f 0"
      "attempt e w url hs data 0 None [] = (Break, r', [Ev_request 0 rq, Ev_log l])"
  | (cont0) res h d where "f 0" "status_raises (fst res)"
      "dump_headers hs = Inr h" "dump_data data = Inr d"
      "attempt e w url hs data 0 None [] =
         (Continue, Some res,
          [Ev_request 0 rq,
           Ev_log \<lparr>log_url = url, log_headers = h, log_data = d, log_response = None\<rparr>,
           Ev_sleep 1])"
    using attempt_first_stored [OF stored, of w url hs data] unfolding rq_def f_def by blast
  then show ?thesis
  proof cases
    case raise0
    then show ?thesis by (simp add: D_def)
  next
    case break0
    then show ?thesis by (simp add: D_def)
  next
    case (cont0 res h d)
    define lf where "lf = \<lparr>log_url = url, log_headers = h, log_data = d, log_response = None\<rparr>"
    define t1 where "t1 = [Ev_request 0 rq, Ev_log lf, Ev_sleep 1]"
    have D1: "D = deliver e w url hs data [1, 2] (Some res) t1"
      using cont0(5) by (simp add: D_def t1_def lf_def)
    consider
      (raise1) err r' where "\<not> f 1"
        "attempt e w url hs data 1 (Some res) t1 = (Raise err, r', t1 @ [Ev_request 1 rq])"
    | (break1) l r' where "\<not> f 1"
        "attempt e w url hs data 1 (Some res) t1 = (Break, r', t1 @ [Ev_request 1 rq, Ev_log l])"
    | (cont1) res' where "f 1" "status_raises (fst res')"
        "attempt e w url hs data 1 (Some res) t1 =
           (Continue, Some res', t1 @ [Ev_request 1 rq, Ev_log lf, Ev_sleep 4])"
      using attempt_later_stored [where e=e and w=w and url=url and i=1 and tr=t1, OF stored cont0(2,3,4)] unfolding rq_def f_def lf_def
      by auto
    then show ?thesis
    proof cases
      case raise1
      with cont0(1) D1 show ?thesis by (simp add: t1_def lf_def)
    next
      case break1
      with cont0(1) D1 show ?thesis by (simp add: t1_def lf_def)
    next
      case (cont1 res')
      define t2 where "t2 = t1 @ [Ev_request 1 rq, Ev_log lf, Ev_sleep 4]"
      have D2: "D = deliver e w url hs data [2] (Some res') t2"
        using D1 cont1(3) by (simp add: t2_def)
      consider
        (raise2) err r' where "\<not> f 2"
          "attempt e w url hs data 2 (Some res') t2 = (Raise err, r', t2 @ [Ev_request 2 rq])"
      | (break2) l r' where "\<not> f 2"
          "attempt e w url hs data 2 (Some res') t2 = (Break, r', t2 @ [Ev_request 2 rq, Ev_log l])"
      | (cont2) res'' where "f 2"
          "attempt e w url hs data 2 (Some res') t2 =
             (Raise (attempt_error (http_request e 2)), Some res'',
              t2 @ [Ev_request 2 rq, Ev_log lf, Ev_sleep 7])"
        using attempt_later_stored [where e=e and w=w and url=url and i=2 and tr=t2, OF stored cont1(2) cont0(3,4)] unfolding rq_def f_def lf_def
        by auto
      then show ?thesis
      proof cases
        case raise2
        with cont0(1) cont1(1) D2 show ?thesis by (simp add: t2_def t1_def lf_def)
      next
        case break2
        with cont0(1) cont1(1) D2 show ?thesis by (simp add: t2_def t1_def lf_def)
      next
        case cont2
        with cont0(1) cont1(1) D2 show ?thesis by (simp add: t2_def t1_def lf_def)
      qed
    qed
  qed
qed

lemma job_last_error:
  assumes stored: "\<And>i h. log_insert e i h = None"
    and "length (requests_of (trace (enqueue_bulk_webhook e w))) = 3"
    and "attempt_fails (http_request e 2)"
  shows "outcome (enqueue_bulk_webhook e w) = Some (attempt_error (http_request e 2))"
proof (cases e w rule: job_cases)
  case (sent hs n data)
  show ?thesis
    using deliver_shape_stored [OF stored, of w "resolve_url e w" hs data] sent(4) assms(2-)
    by (elim disjE exE conjE) simp_all
qed (use assms(2-) in simp_all)

lemma job_success_stops:
  assumes stored: "\<And>i h. log_insert e i h = None"
    and "i < length (requests_of (trace (enqueue_bulk_webhook e w)))"
    and "\<not> attempt_fails (http_request e i)"
  shows "length (requests_of (trace (enqueue_bulk_webhook e w))) = Suc i"
proof (cases e w rule: job_cases)
  case (sent hs n data)
  show ?thesis
    using deliver_shape_stored [OF stored, of w "resolve_url e w" hs data] sent(4) assms(2-)
    by (elim disjE exE conjE) (auto simp: less_Suc_eq numeral_2_eq_2)
qed (use assms(2-) in simp_all)

lemma failed_job_logs_no_response:
  assumes stored: "\<And>i h. log_insert e i h = None"
    and "outcome (enqueue_bulk_webhook e w) \<noteq> None"
    and "l \<in> set (logs_of (trace (enqueue_bulk_webhook e w)))"
  shows "log_response l = None"
proof (cases e w rule: job_cases)
  case (sent hs n data)
  show ?thesis
    using deliver_shape_stored [OF stored, of w "resolve_url e w" hs data] sent(4) assms(2-)
    by (elim disjE exE conjE) auto
qed (use assms(2-) in simp_all)


lemma retry_budget_when_logs_are_stored:
  assumes "\<And>i h. log_insert e i h = None"
  shows "length (requests_of (trace (enqueue_bulk_webhook e w))) \<le> 3
   \<and> (length (requests_of (trace (enqueue_bulk_webhook e w))) = 3
        \<and> attempt_fails (http_request e 0) \<and> attempt_fails (http_request e 1)
        \<and> attempt_fails (http_request e 2) \<longrightarrow>
      outcome (enqueue_bulk_webhook e w) = Some (attempt_error (http_request e 2)))
   \<and> (\<forall>i < length (requests_of (trace (enqueue_bulk_webhook e w))).
        \<not> attempt_fails (http_request e i) \<longrightarrow>
        length (requests_of (trace (enqueue_bulk_webhook e w))) = Suc i)"
  using job_requests_le3 [of e w] job_last_error [OF assms, of w]
    job_success_stops [OF assms, of _ w]
  by blast

section \<open>Payload without a template (C1)\<close>

text \<open>
  Without a template \<^verbatim>\<open>get_webhook_data\<close> returns the empty dict it started with, whatever
  the producer yielded, so the job finds no data and sends nothing.
\<close>

lemma no_template_no_request:
  assumes "template_of w = None"
  shows "trace (enqueue_bulk_webhook e w) = []"
proof (cases e w rule: job_cases)
  case (sent hs n data)
  from sent(2) assms have "data = PNone \<or> data = PDict []"
    by (auto simp: get_webhook_data_def render_data_def split: sum.splits if_splits)
  with sent(3) show ?thesis by auto
qed simp_all

text \<open>
  C1 says that with no template and a non-empty record sequence the request carries that
  sequence serialised as JSON. At the spec's own scenario (source \<^verbatim>\<open>Method\<close> returning
  \<^verbatim>\<open>[{"a": 1}]\<close>, no template) the code builds the converted records, drops them, returns
  \<^verbatim>\<open>{}\<close> from \<^verbatim>\<open>get_webhook_data\<close> and ends the job with no request at all, where the
  claim expects the body \<^verbatim>\<open>[{"a": 1}]\<close>.
\<close>

theorem no_template_job_sends_nothing:
  "template_of method_hook = None
   \<and> produce one_record_env method_hook 0 = Inr (PList [PDict [(''a'', PInt 1)]])
   \<and> json_dumps True None (PList [PDict [(''a'', PInt 1)]]) = Inr ''[{\"a\": 1}]''
   \<and> get_webhook_data one_record_env method_hook 0 = (Inr (PDict []), 1)
   \<and> enqueue_bulk_webhook one_record_env method_hook = \<lparr>outcome = None, trace = [], calls = 1\<rparr>"
  by code_simp

section \<open>One log entry per attempt (C2)\<close>

text \<open>
  C2 says that every attempt, a transport failure before any response included, writes
  exactly one log entry, with no response in it. When the first request raises, \<^verbatim>\<open>r\<close> has
  never been assigned, the \<^verbatim>\<open>except\<close> branch fails reading it, and the job ends with an
  \<^verbatim>\<open>UnboundLocalError\<close>: one attempt, no log entry, no back-off and no retry.
\<close>

theorem transport_failure_on_first_attempt_is_not_logged:
  "http_request refusing_env 0 = Transport_failure ''connection refused''
   \<and> length (requests_of (trace (enqueue_bulk_webhook refusing_env literal_hook))) = 1
   \<and> logs_of (trace (enqueue_bulk_webhook refusing_env literal_hook)) = []
   \<and> sleeps_of (trace (enqueue_bulk_webhook refusing_env literal_hook)) = []
   \<and> outcome (enqueue_bulk_webhook refusing_env literal_hook) = Some UnboundLocalError"
  by code_simp

text \<open>
  The entry of a transport failure can also hold an earlier response: when storing the
  entry of a 200 raises in the \<^verbatim>\<open>try\<close> block, the \<^verbatim>\<open>except\<close> branch logs it and the loop
  goes on with \<^verbatim>\<open>r\<close> bound to that response, which the next passes log again although
  their own requests timed out.
\<close>

lemma stale_response_is_logged:
  "map attempt_fails (map (http_request stale_env) [0, 1, 2]) = [False, True, True]
   \<and> map log_response (logs_of (trace (enqueue_bulk_webhook stale_env literal_hook)))
       = replicate 3 (Some (json_text (Some 4) 0 (PDict [(''id'', PInt 7)])))
   \<and> outcome (enqueue_bulk_webhook stale_env literal_hook) = Some (ConnectionError ''timed out'')"
  by code_simp

section \<open>What is signed (C3)\<close>

text \<open>
  C3 says that the signature is computed over the very bytes sent as the body. The code
  signs \<^verbatim>\<open>json.dumps\<close> of a production of its own, made during header resolution, and sends
  \<^verbatim>\<open>json.dumps\<close> of a later one. With a producer that returns one record at the first call
  and two at the second, the one request of the job carries a signature over \<^verbatim>\<open>{"n": 1}\<close>
  and the body \<^verbatim>\<open>{"n": 2}\<close>.
\<close>

theorem signature_signs_another_production:
  "enable_security signed_hook
   \<and> map (\<lambda>rq. (map_of (req_headers rq) WEBHOOK_SECRET_HEADER, req_body rq))
       (requests_of (trace (enqueue_bulk_webhook growing_env signed_hook)))
     = [(Some (HSig (Hmac_sha256_b64 ''s3cret'' ''{\"n\": 1}'')), ''{\"n\": 2}'')]"
  by code_simp

section \<open>Productions per job (C4)\<close>

text \<open>How many productions a job makes: at most two, at most one without the security
  flag, and exactly that many once it reaches the request; the manual trigger makes at
  most one of its own before the job is enqueued.\<close>

lemma job_production_count:
  "calls (enqueue_bulk_webhook e w) \<le> (if enable_security w then 2 else 1)
   \<and> (requests_of (trace (enqueue_bulk_webhook e w)) \<noteq> [] \<longrightarrow>
        calls (enqueue_bulk_webhook e w) = (if enable_security w then 2 else 1))
   \<and> snd (send e w) \<le> 1"
  using job_calls_le [of e w] job_sent_calls [of e w] send_calls [of e w] by blast

text \<open>
  C4 says that a job invokes the producer at most once, so that the payload signed and the
  payload sent come from one production. The job of a signed webhook invokes it twice:
  \<^verbatim>\<open>get_webhook_headers\<close> makes a production of its own to sign, and
  \<^verbatim>\<open>enqueue_bulk_webhook\<close> makes another for the body. With a producer that returns one
  record and then two, the payload signed is \<^verbatim>\<open>{"n": 1}\<close> and the payload sent is
  \<^verbatim>\<open>{"n": 2}\<close>.
\<close>

theorem signed_job_produces_twice:
  "enable_security signed_hook
   \<and> calls (enqueue_bulk_webhook growing_env signed_hook) = 2
   \<and> get_webhook_data growing_env signed_hook 0 = (Inr (PDict [(''n'', PInt 1)]), 1)
   \<and> get_webhook_data growing_env signed_hook 1 = (Inr (PDict [(''n'', PInt 2)]), 2)
   \<and> signature_headers growing_env signed_hook 0
       = (Inr [(WEBHOOK_SECRET_HEADER, HSig (Hmac_sha256_b64 ''s3cret'' ''{\"n\": 1}''))], 1)
   \<and> map req_body (requests_of (trace (enqueue_bulk_webhook growing_env signed_hook)))
       = [''{\"n\": 2}'']"
  by code_simp

section \<open>The retry budget (C5)\<close>

text \<open>
  C5 says that when three attempts fail the error of the third is raised, and that an
  attempt that succeeds ends the loop at once. \<^verbatim>\<open>log_request\<close> is called inside the \<^verbatim>\<open>try\<close>
  block, so an error in storing the log entry of a successful attempt is caught like a
  failed delivery: the \<^verbatim>\<open>except\<close> branch logs, sleeps and the request is sent again. And
  an error in storing the entry of the third failed attempt leaves the \<^verbatim>\<open>except\<close> branch
  before \<^verbatim>\<open>raise e\<close>, so that error is raised and not the attempt's.
  First job: the endpoint answers 200 at once, storing the first entry raises; the request
  is sent twice. Second job: three answers of 500, storing the last entry raises; the job
  raises the storing error, not \<^verbatim>\<open>HTTPError\<close> 500.
\<close>

theorem success_is_resent_when_its_log_fails:
  "\<not> attempt_fails (http_request insert_fails_once_env 0)
   \<and> schedule (trace (enqueue_bulk_webhook insert_fails_once_env literal_hook))
       = [Attempt 0, Backoff 1, Attempt 1]
   \<and> length (logs_of (trace (enqueue_bulk_webhook insert_fails_once_env literal_hook))) = 2
   \<and> outcome (enqueue_bulk_webhook insert_fails_once_env literal_hook) = None
   \<and> map attempt_fails (map (http_request insert_fails_last_env) [0, 1, 2]) = [True, True, True]
   \<and> length (requests_of (trace (enqueue_bulk_webhook insert_fails_last_env literal_hook))) = 3
   \<and> attempt_error (http_request insert_fails_last_env 2) = HTTPError 500
   \<and> outcome (enqueue_bulk_webhook insert_fails_last_env literal_hook)
       = Some (DatabaseError ''lock wait timeout'')"
  by code_simp

section \<open>Back-off (C6)\<close>

text \<open>
  C6: the attempts and back-offs of a job, in order, are an initial part of attempt 0,
  back-off 1, attempt 1, back-off 4, attempt 2, back-off 7, so between attempt \<open>i\<close> and
  the next the worker sleeps \<open>3 * i + 1\<close>; and every failed attempt whose log entry was
  written is followed by its back-off of \<open>3 * i + 1\<close>.
\<close>

theorem backoff_between_attempts:
  "prefix (schedule (trace (enqueue_bulk_webhook e w)))
     [Attempt 0, Backoff (3 * 0 + 1), Attempt 1, Backoff (3 * 1 + 1), Attempt 2, Backoff (3 * 2 + 1)]
   \<and> (\<forall>i < length (logs_of (trace (enqueue_bulk_webhook e w))).
        attempt_fails (http_request e i) \<longrightarrow>
        i < length (sleeps_of (trace (enqueue_bulk_webhook e w)))
        \<and> sleeps_of (trace (enqueue_bulk_webhook e w)) ! i = 3 * i + 1)"
  using job_schedule [of e w] job_backoff [of _ e w] by blast

text \<open>The spec's scenario: 500, 500, 200. Three log entries, success, delays 1 and 4.\<close>

theorem backoff_between_attempts_witness:
  "schedule (trace (enqueue_bulk_webhook flaky_env literal_hook))
     = [Attempt 0, Backoff 1, Attempt 1, Backoff 4, Attempt 2]
   \<and> length (logs_of (trace (enqueue_bulk_webhook flaky_env literal_hook))) = 3
   \<and> outcome (enqueue_bulk_webhook flaky_env literal_hook) = None
   \<and> attempt_fails (http_request flaky_env 1)
   \<and> sleeps_of (trace (enqueue_bulk_webhook flaky_env literal_hook)) ! 1 = 4"
proof -
  have sch: "schedule (trace (enqueue_bulk_webhook flaky_env literal_hook))
     = [Attempt 0, Backoff 1, Attempt 1, Backoff 4, Attempt 2]"
    by code_simp
  have n: "length (logs_of (trace (enqueue_bulk_webhook flaky_env literal_hook))) = 3"
    and out: "outcome (enqueue_bulk_webhook flaky_env literal_hook) = None"
    and f: "attempt_fails (http_request flaky_env 1)"
    by code_simp+
  from backoff_between_attempts [of flaky_env literal_hook] n f
  have "sleeps_of (trace (enqueue_bulk_webhook flaky_env literal_hook)) ! 1 = 3 * 1 + 1"
    by auto
  with sch n out f show ?thesis by simp
qed

section \<open>The signature header (C7)\<close>

text \<open>How the header rows act on a resolved mapping, and what the two halves of
  \<^verbatim>\<open>get_webhook_headers\<close> return.\<close>

lemma add_header_row_value:
  "map_of (add_header_row h hs) k =
     (case last_row_value k [h] of Some v \<Rightarrow> Some (HStr v) | None \<Rightarrow> map_of hs k)"
  by (auto simp: add_header_row_def update_conv' split: option.splits)

lemma add_header_rows_value:
  "map_of (add_header_rows rows hs) k =
     (case last_row_value k rows of Some v \<Rightarrow> Some (HStr v) | None \<Rightarrow> map_of hs k)"
  unfolding add_header_rows_def
proof (induction rows arbitrary: hs)
  case Nil
  then show ?case by simp
next
  case (Cons h rows)
  have "map_of (fold add_header_row (h # rows) hs) k
      = (case last_row_value k rows of
           Some v \<Rightarrow> Some (HStr v)
         | None \<Rightarrow> map_of (add_header_row h hs) k)"
    using Cons.IH [of "add_header_row h hs"] by simp
  then show ?case
    using add_header_row_value [of h hs k] by (simp split: option.splits)
qed

lemma last_row_value_Cons_None:
  "last_row_value k (h # rows) = None \<longleftrightarrow>
   last_row_value k rows = None \<and> \<not> (hkey h = Some k \<and> k \<noteq> [] \<and> str_truthy (hvalue h))"
  by (cases "last_row_value k rows"; cases "hkey h"; cases "hvalue h")
     (auto simp: str_truthy_def)

lemma last_row_value_None:
  "last_row_value k rows = None \<longleftrightarrow>
   list_all (\<lambda>h. \<not> (hkey h = Some k \<and> k \<noteq> [] \<and> str_truthy (hvalue h))) rows"
proof (induction rows)
  case Nil
  then show ?case by simp
next
  case (Cons h rows)
  show ?case
    unfolding last_row_value_Cons_None Cons.IH by auto
qed

lemma last_row_value_Some:
  "last_row_value k rows = Some v \<Longrightarrow>
   \<exists>h \<in> set rows. hkey h = Some k \<and> hvalue h = Some v \<and> v \<noteq> []"
  by (induction rows) (auto split: option.splits if_splits)

lemma add_header_row_source:
  "map_of (add_header_row h hs) k = Some v \<Longrightarrow>
   map_of hs k = Some v
   \<or> (\<exists>s. hkey h = Some k \<and> hvalue h = Some s \<and> k \<noteq> [] \<and> s \<noteq> [] \<and> v = HStr s)"
  by (auto simp: add_header_row_def update_conv' split: option.splits if_splits)

lemma add_header_rows_source:
  "map_of (add_header_rows rows hs) k = Some v \<Longrightarrow>
   map_of hs k = Some v
   \<or> (\<exists>h \<in> set rows. \<exists>s. hkey h = Some k \<and> hvalue h = Some s \<and> k \<noteq> [] \<and> s \<noteq> [] \<and> v = HStr s)"
  unfolding add_header_rows_def
proof (induction rows arbitrary: hs)
  case Nil
  then show ?case by simp
next
  case (Cons h rows)
  from Cons.prems have "map_of (fold add_header_row rows (add_header_row h hs)) k = Some v"
    by simp
  from Cons.IH [OF this] show ?case
    using add_header_row_source [of h hs k v] by auto
qed

lemma headers_resolved:
  assumes "get_webhook_headers e w n = (Inr hs, n')"
  shows "\<exists>hs0. signature_headers e w n = (Inr hs0, n')
           \<and> hs = add_header_rows (selected_rows e w) hs0"
  using assms
  by (auto simp: get_webhook_headers_def selected_rows_def split: prod.splits sum.splits if_splits)

lemma signature_headers_form:
  assumes "signature_headers e w n = (Inr hs0, n')"
  shows "(enable_security w \<and>
            (\<exists>secret data. webhook_secret w = Some secret
               \<and> get_webhook_data e w n = (Inr data, n')
               \<and> hs0 = [(WEBHOOK_SECRET_HEADER,
                          HSig (Hmac_sha256_b64 secret (json_text None 0 data)))]))
         \<or> (\<not> enable_security w \<and> hs0 = [])"
  using assms
  by (auto simp: signature_headers_def json_dumps_def
      split: prod.splits sum.splits option.splits if_splits)

text \<open>
  C7 as stated, that the signature goes out under \<^verbatim>\<open>X-Webhook-Signature\<close>, fails: the request
  of a signed webhook has no header of that name. Under the name the code uses the claim
  still fails for a webhook with header rows of that name: the request carries the value
  of the last such row and no signature.
\<close>

theorem signature_header_name_counterexample:
  "enable_security signed_hook
   \<and> map (\<lambda>rq. map_of (req_headers rq) ''X-Webhook-Signature'')
       (requests_of (trace (enqueue_bulk_webhook growing_env signed_hook))) = [None]
   \<and> enable_security overridden_hook
   \<and> map (\<lambda>rq. (map_of (req_headers rq) ''X-Webhook-Signature'',
                 map_of (req_headers rq) ''X-Frappe-Webhook-Signature''))
       (requests_of (trace (enqueue_bulk_webhook growing_env overridden_hook)))
       = [(None, Some (HStr ''override''))]"
  by code_simp

text \<open>
  C7 as amended: the fixed, case-sensitive name is \<^verbatim>\<open>X-Frappe-Webhook-Signature\<close>. Every
  request of a job whose webhook has the security flag set carries a header of that name.
  Its value is the signature, under the webhook's secret, unless a header row that the
  resolution reads has that name and a value that is not empty: then it is the value of
  the last such row. A row of that name with an empty or missing value leaves the
  signature in place.
\<close>

theorem signature_header_name:
  assumes "enable_security w"
    and "rq \<in> set (requests_of (trace (enqueue_bulk_webhook e w)))"
  shows "WEBHOOK_SECRET_HEADER = ''X-Frappe-Webhook-Signature''
    \<and> (\<exists>secret data n. webhook_secret w = Some secret
          \<and> get_webhook_data e w 0 = (Inr data, n)
          \<and> map_of (req_headers rq) WEBHOOK_SECRET_HEADER
              = (case last_row_value WEBHOOK_SECRET_HEADER (selected_rows e w) of
                   Some v \<Rightarrow> Some (HStr v)
                 | None \<Rightarrow> Some (HSig (Hmac_sha256_b64 secret (json_text None 0 data)))))
    \<and> (list_all (\<lambda>h. \<not> (hkey h = Some WEBHOOK_SECRET_HEADER \<and> str_truthy (hvalue h)))
          (selected_rows e w) \<longrightarrow>
        (\<exists>sg. map_of (req_headers rq) WEBHOOK_SECRET_HEADER = Some (HSig sg)))
    \<and> ((\<exists>h \<in> set (selected_rows e w).
            hkey h = Some WEBHOOK_SECRET_HEADER \<and> str_truthy (hvalue h)) \<longrightarrow>
        (\<exists>h \<in> set (selected_rows e w). \<exists>v.
            hkey h = Some WEBHOOK_SECRET_HEADER \<and> hvalue h = Some v \<and> v \<noteq> []
            \<and> map_of (req_headers rq) WEBHOOK_SECRET_HEADER = Some (HStr v)))"
proof -
  let ?H = WEBHOOK_SECRET_HEADER
  let ?rows = "selected_rows e w"
  have H: "?H \<noteq> []" by (simp add: WEBHOOK_SECRET_HEADER_def)
  from assms(2) obtain n where "get_webhook_headers e w 0 = (Inr (req_headers rq), n)"
    using job_request_headers by blast
  then obtain hs0 where s: "signature_headers e w 0 = (Inr hs0, n)"
    and h: "req_headers rq = add_header_rows ?rows hs0"
    using headers_resolved by blast
  from s assms(1) obtain secret data where sec: "webhook_secret w = Some secret"
    and d: "get_webhook_data e w 0 = (Inr data, n)"
    and hs0: "hs0 = [(?H, HSig (Hmac_sha256_b64 secret (json_text None 0 data)))]"
    using signature_headers_form by blast
  have v: "map_of (req_headers rq) ?H
      = (case last_row_value ?H ?rows of
           Some v \<Rightarrow> Some (HStr v)
         | None \<Rightarrow> Some (HSig (Hmac_sha256_b64 secret (json_text None 0 data))))"
    unfolding h hs0 by (simp add: add_header_rows_value split: option.splits)
  have a: "\<exists>sg. map_of (req_headers rq) ?H = Some (HSig sg)"
    if "list_all (\<lambda>h. \<not> (hkey h = Some ?H \<and> str_truthy (hvalue h))) ?rows"
  proof -
    from that have "list_all (\<lambda>h. \<not> (hkey h = Some ?H \<and> ?H \<noteq> [] \<and> str_truthy (hvalue h))) ?rows"
      by (simp add: list_all_iff)
    then have "last_row_value ?H ?rows = None"
      by (simp add: last_row_value_None)
    with v show ?thesis by simp
  qed
  have b: "\<exists>h \<in> set ?rows. \<exists>v. hkey h = Some ?H \<and> hvalue h = Some v \<and> v \<noteq> []
            \<and> map_of (req_headers rq) ?H = Some (HStr v)"
    if "\<exists>h \<in> set ?rows. hkey h = Some ?H \<and> str_truthy (hvalue h)"
  proof -
    from that H have "\<not> list_all (\<lambda>h. \<not> (hkey h = Some ?H \<and> ?H \<noteq> [] \<and> str_truthy (hvalue h))) ?rows"
      by (auto simp: list_all_iff)
    then obtain x where x: "last_row_value ?H ?rows = Some x"
      using last_row_value_None [of ?H ?rows] by (cases "last_row_value ?H ?rows") auto
    from last_row_value_Some [OF x] v x show ?thesis by auto
  qed
  have name: "?H = ''X-Frappe-Webhook-Signature''"
    by (simp add: WEBHOOK_SECRET_HEADER_def)
  from v sec d have "\<exists>secret data n. webhook_secret w = Some secret
          \<and> get_webhook_data e w 0 = (Inr data, n)
          \<and> map_of (req_headers rq) ?H
              = (case last_row_value ?H ?rows of
                   Some v \<Rightarrow> Some (HStr v)
                 | None \<Rightarrow> Some (HSig (Hmac_sha256_b64 secret (json_text None 0 data))))"
    by blast
  with name a b show ?thesis by blast
qed

text \<open>Three signed jobs that send a request: with no header rows the value is the
  signature; with two rows of that name it is the second row's value; with a row of that
  name and an empty value it is the signature.\<close>

theorem signature_header_name_witness:
  "enable_security signed_hook \<and> enable_security overridden_hook
   \<and> enable_security blank_override_hook
   \<and> map (\<lambda>rq. map_of (req_headers rq) ''X-Frappe-Webhook-Signature'')
       (requests_of (trace (enqueue_bulk_webhook growing_env signed_hook)))
       = [Some (HSig (Hmac_sha256_b64 ''s3cret'' ''{\"n\": 1}''))]
   \<and> map (\<lambda>rq. map_of (req_headers rq) ''X-Frappe-Webhook-Signature'')
       (requests_of (trace (enqueue_bulk_webhook growing_env overridden_hook)))
       = [Some (HStr ''override'')]
   \<and> map (\<lambda>rq. map_of (req_headers rq) ''X-Frappe-Webhook-Signature'')
       (requests_of (trace (enqueue_bulk_webhook growing_env blank_override_hook)))
       = [Some (HSig (Hmac_sha256_b64 ''s3cret'' ''{\"n\": 1}''))]
   \<and> (\<exists>sg. map_of (req_headers (hd (requests_of (trace (enqueue_bulk_webhook growing_env
                blank_override_hook))))) ''X-Frappe-Webhook-Signature'' = Some (HSig sg))
   \<and> (\<exists>v. v \<noteq> [] \<and> map_of (req_headers (hd (requests_of (trace (enqueue_bulk_webhook growing_env
                overridden_hook))))) ''X-Frappe-Webhook-Signature'' = Some (HStr v))"
proof -
  have s: "enable_security signed_hook" "enable_security overridden_hook"
    "enable_security blank_override_hook"
    by code_simp+
  have v1: "map (\<lambda>rq. map_of (req_headers rq) ''X-Frappe-Webhook-Signature'')
       (requests_of (trace (enqueue_bulk_webhook growing_env signed_hook)))
       = [Some (HSig (Hmac_sha256_b64 ''s3cret'' ''{\"n\": 1}''))]"
    by code_simp
  have v2: "map (\<lambda>rq. map_of (req_headers rq) ''X-Frappe-Webhook-Signature'')
       (requests_of (trace (enqueue_bulk_webhook growing_env overridden_hook)))
       = [Some (HStr ''override'')]"
    by code_simp
  have v3: "map (\<lambda>rq. map_of (req_headers rq) ''X-Frappe-Webhook-Signature'')
       (requests_of (trace (enqueue_bulk_webhook growing_env blank_override_hook)))
       = [Some (HSig (Hmac_sha256_b64 ''s3cret'' ''{\"n\": 1}''))]"
    by code_simp
  have rb: "hd (requests_of (trace (enqueue_bulk_webhook growing_env blank_override_hook)))
      \<in> set (requests_of (trace (enqueue_bulk_webhook growing_env blank_override_hook)))"
    using v3 by (cases "requests_of (trace (enqueue_bulk_webhook growing_env blank_override_hook))") auto
  have ro: "hd (requests_of (trace (enqueue_bulk_webhook growing_env overridden_hook)))
      \<in> set (requests_of (trace (enqueue_bulk_webhook growing_env overridden_hook)))"
    using v2 by (cases "requests_of (trace (enqueue_bulk_webhook growing_env overridden_hook))") auto
  have blank: "list_all (\<lambda>h. \<not> (hkey h = Some WEBHOOK_SECRET_HEADER \<and> str_truthy (hvalue h)))
          (selected_rows growing_env blank_override_hook)"
    by code_simp
  have over: "\<exists>h \<in> set (selected_rows growing_env overridden_hook).
            hkey h = Some WEBHOOK_SECRET_HEADER \<and> str_truthy (hvalue h)"
    by (simp add: selected_rows_def overridden_hook_def signed_hook_def method_hook_def
        WEBHOOK_SECRET_HEADER_def str_truthy_def)
  have "\<exists>sg. map_of (req_headers (hd (requests_of (trace (enqueue_bulk_webhook growing_env
                blank_override_hook))))) ''X-Frappe-Webhook-Signature'' = Some (HSig sg)"
    using signature_header_name [OF s(3) rb] blank by simp
  moreover have "\<exists>v. v \<noteq> [] \<and> map_of (req_headers (hd (requests_of (trace (enqueue_bulk_webhook
         growing_env overridden_hook))))) ''X-Frappe-Webhook-Signature'' = Some (HStr v)"
    using signature_header_name [OF s(2) ro] over by auto
  ultimately show ?thesis using s v1 v2 v3 by simp
qed

section \<open>Header resolution (C8)\<close>

text \<open>The settings' header rows play no part in producing the payload.\<close>

lemma render_ignores_settings_headers:
  "render_data (e\<lparr>settings_headers := g\<rparr>) w raw = render_data e w raw"
  by (simp add: render_data_def split: sum.splits option.splits)

lemma produce_ignores_settings_headers:
  "produce (e\<lparr>settings_headers := g\<rparr>) w n = produce e w n"
  by (simp add: produce_def get_report_data_def get_method_data_def get_script_data_def)

lemma data_ignores_settings_headers:
  "get_webhook_data (e\<lparr>settings_headers := g\<rparr>) w n = get_webhook_data e w n"
  by (simp add: get_webhook_data_def render_ignores_settings_headers
      produce_ignores_settings_headers split: sum.splits)

lemma signature_ignores_settings_headers:
  "signature_headers (e\<lparr>settings_headers := g\<rparr>) w n = signature_headers e w n"
  by (simp add: signature_headers_def data_ignores_settings_headers)

text \<open>
  C8: when the webhook has header rows of its own, the resolved headers do not depend on
  the settings' rows at all; every resolved entry is the signature (under the security
  flag) or comes from a row of the one list that was read, the webhook's own when it is
  not empty and the settings' otherwise, and that row has a key and a value, both not
  empty; a row with a missing or empty key or value changes nothing.
\<close>

theorem header_resolution_exclusive:
  "(webhook_headers w \<noteq> [] \<longrightarrow>
      get_webhook_headers (e\<lparr>settings_headers := g\<rparr>) w n = get_webhook_headers e w n)
   \<and> (get_webhook_headers e w n = (Inr hs, n') \<and> map_of hs k = Some v \<longrightarrow>
        (k = WEBHOOK_SECRET_HEADER \<and> enable_security w \<and> (\<exists>sg. v = HSig sg))
        \<or> (\<exists>h \<in> set (if webhook_headers w \<noteq> [] then webhook_headers w else settings_headers e).
              \<exists>s. hkey h = Some k \<and> hvalue h = Some s \<and> k \<noteq> [] \<and> s \<noteq> [] \<and> v = HStr s))
   \<and> (hkey h = None \<or> hvalue h = None \<or> hkey h = Some [] \<or> hvalue h = Some [] \<longrightarrow>
        add_header_row h hs' = hs')"
proof (intro conjI impI)
  assume "webhook_headers w \<noteq> []"
  then show "get_webhook_headers (e\<lparr>settings_headers := g\<rparr>) w n = get_webhook_headers e w n"
    by (simp add: get_webhook_headers_def signature_ignores_settings_headers
        split: prod.splits sum.splits)
next
  assume a: "get_webhook_headers e w n = (Inr hs, n') \<and> map_of hs k = Some v"
  then obtain hs0 where s: "signature_headers e w n = (Inr hs0, n')"
    and h: "hs = add_header_rows (selected_rows e w) hs0"
    using headers_resolved by blast
  from a h have "map_of hs0 k = Some v
     \<or> (\<exists>h \<in> set (selected_rows e w).
           \<exists>s. hkey h = Some k \<and> hvalue h = Some s \<and> k \<noteq> [] \<and> s \<noteq> [] \<and> v = HStr s)"
    using add_header_rows_source by blast
  moreover have "k = WEBHOOK_SECRET_HEADER \<and> enable_security w \<and> (\<exists>sg. v = HSig sg)"
    if "map_of hs0 k = Some v"
    using signature_headers_form [OF s] that by (auto split: if_splits)
  ultimately show "(k = WEBHOOK_SECRET_HEADER \<and> enable_security w \<and> (\<exists>sg. v = HSig sg))
        \<or> (\<exists>h \<in> set (if webhook_headers w \<noteq> [] then webhook_headers w else settings_headers e).
              \<exists>s. hkey h = Some k \<and> hvalue h = Some s \<and> k \<noteq> [] \<and> s \<noteq> [] \<and> v = HStr s)"
    unfolding selected_rows_def by blast
next
  assume "hkey h = None \<or> hvalue h = None \<or> hkey h = Some [] \<or> hvalue h = Some []"
  then show "add_header_row h hs' = hs'"
    by (auto simp: add_header_row_def split: option.splits)
qed

text \<open>With a settings row \<^verbatim>\<open>Authorization\<close>: a webhook with rows of its own resolves to its
  own good row only, a webhook without rows to the settings row.\<close>

theorem header_resolution_exclusive_witness:
  "webhook_headers own_headers_hook \<noteq> []
   \<and> get_webhook_headers global_headers_env own_headers_hook 0
       = (Inr [(''X-Tenant'', HStr ''acme'')], 0)
   \<and> webhook_headers literal_hook = []
   \<and> get_webhook_headers global_headers_env literal_hook 0
       = (Inr [(''Authorization'', HStr ''token abc'')], 0)
   \<and> add_header_row \<lparr>hkey = Some ''X-Empty'', hvalue = None\<rparr> [] = []"
proof -
  have ne: "webhook_headers own_headers_hook \<noteq> []" and em: "webhook_headers literal_hook = []"
    by code_simp+
  have g: "global_headers_env
      = literal_env\<lparr>settings_headers := [\<lparr>hkey = Some ''Authorization'', hvalue = Some ''token abc''\<rparr>]\<rparr>"
    by (simp add: global_headers_env_def)
  have own: "get_webhook_headers literal_env own_headers_hook 0 = (Inr [(''X-Tenant'', HStr ''acme'')], 0)"
    by code_simp
  have glob: "get_webhook_headers global_headers_env literal_hook 0
       = (Inr [(''Authorization'', HStr ''token abc'')], 0)"
    by code_simp
  have "get_webhook_headers global_headers_env own_headers_hook 0
       = get_webhook_headers literal_env own_headers_hook 0"
    unfolding g
    using header_resolution_exclusive [where w = own_headers_hook and e = literal_env and n = 0] ne
    by blast
  moreover have "add_header_row \<lparr>hkey = Some ''X-Empty'', hvalue = None\<rparr> [] = []"
    using header_resolution_exclusive [where h = "\<lparr>hkey = Some ''X-Empty'', hvalue = None\<rparr>"]
    by simp
  ultimately show ?thesis using ne em own glob by simp
qed

section \<open>Autocompletion scores (C9)\<close>






section \<open>Mandatory filters (C10)\<close>

text \<open>
  The loop reads a filter only through its truth value, so a false value and a missing key
  give the same list; and metadata entries that name their field and label never make the
  loop raise.
\<close>

lemma dict_get_falsy_absent:
  "\<not> py_truthy v \<Longrightarrow>
   py_truthy (dict_get (AList.update f v fs) k) = py_truthy (dict_get (AList.delete f fs) k)"
  by (simp add: dict_get_def update_conv' delete_conv')

lemma check_meta_falsy_absent:
  assumes "\<not> py_truthy v"
  shows "check_meta (AList.update f v fs) meta = check_meta (AList.delete f fs) meta"
proof (cases "map_of meta ''fieldname''")
  case None
  then show ?thesis by (simp add: check_meta_def filter_value_def)
next
  case (Some x)
  then show ?thesis
    using dict_get_falsy_absent [OF assms, of f fs]
    by (cases x) (simp_all add: check_meta_def filter_value_def)
qed

lemma throw_list_falsy_absent:
  "\<not> py_truthy v \<Longrightarrow>
   throw_list (AList.update f v fs) metas = throw_list (AList.delete f fs) metas"
  by (induction metas) (simp_all add: check_meta_falsy_absent split: sum.splits)

lemma strings_of_PStr: "strings_of (map PStr ls) = Some ls"
  by (induction ls) simp_all

lemma check_meta_ok:
  assumes "meta_ok meta"
  shows "\<exists>ls. check_meta fs meta = Inr (map PStr ls)
     \<and> (\<forall>f l. py_truthy (dict_get meta ''reqd'') \<and> map_of meta ''fieldname'' = Some (PStr f)
           \<and> map_of meta ''label'' = Some (PStr l) \<and> \<not> py_truthy (dict_get fs f)
           \<longrightarrow> l \<in> set ls)"
proof -
  from assms obtain f l where f: "map_of meta ''fieldname'' = Some (PStr f)"
    and l: "map_of meta ''label'' = Some (PStr l)"
    by (auto simp: meta_ok_def split: option.splits pyval.splits)
  show ?thesis
  proof (cases "py_truthy (dict_get meta ''reqd'') \<and> \<not> py_truthy (dict_get fs f)")
    case True
    with f l have "check_meta fs meta = Inr (map PStr [l])"
      by (simp add: check_meta_def filter_value_def)
    with f l show ?thesis by (intro exI [of _ "[l]"]) auto
  next
    case False
    with f l have "check_meta fs meta = Inr (map PStr [])"
      by (auto simp: check_meta_def filter_value_def)
    with False f show ?thesis by (intro exI [of _ "[]"]) auto
  qed
qed

lemma throw_list_ok:
  assumes "list_all meta_ok metas"
  shows "\<exists>ls. throw_list fs metas = Inr (map PStr ls)
     \<and> (\<forall>meta \<in> set metas. \<forall>f l.
           py_truthy (dict_get meta ''reqd'') \<and> map_of meta ''fieldname'' = Some (PStr f)
           \<and> map_of meta ''label'' = Some (PStr l) \<and> \<not> py_truthy (dict_get fs f)
           \<longrightarrow> l \<in> set ls)"
  using assms
proof (induction metas)
  case Nil
  then show ?case by simp
next
  case (Cons meta metas)
  then obtain ls where ls: "throw_list fs metas = Inr (map PStr ls)"
    and lsP: "\<forall>meta \<in> set metas. \<forall>f l.
           py_truthy (dict_get meta ''reqd'') \<and> map_of meta ''fieldname'' = Some (PStr f)
           \<and> map_of meta ''label'' = Some (PStr l) \<and> \<not> py_truthy (dict_get fs f)
           \<longrightarrow> l \<in> set ls"
    by auto
  from Cons.prems have "meta_ok meta" by simp
  from check_meta_ok [OF this, of fs] obtain hd_ls where hd: "check_meta fs meta = Inr (map PStr hd_ls)"
    and hdP: "\<forall>f l. py_truthy (dict_get meta ''reqd'') \<and> map_of meta ''fieldname'' = Some (PStr f)
           \<and> map_of meta ''label'' = Some (PStr l) \<and> \<not> py_truthy (dict_get fs f)
           \<longrightarrow> l \<in> set hd_ls"
    by blast
  have "throw_list fs (meta # metas) = Inr (map PStr (hd_ls @ ls))"
    using hd ls by simp
  moreover have "\<forall>m \<in> set (meta # metas). \<forall>f l.
           py_truthy (dict_get m ''reqd'') \<and> map_of m ''fieldname'' = Some (PStr f)
           \<and> map_of m ''label'' = Some (PStr l) \<and> \<not> py_truthy (dict_get fs f)
           \<longrightarrow> l \<in> set (hd_ls @ ls)"
    using hdP lsP by auto
  ultimately show ?case by blast
qed

text \<open>
  C10: validation gives the same result for a filter with a false value (0, the empty
  string, \<^verbatim>\<open>False\<close>) as for the filter left out; and for every metadata entry marked
  required whose filter is false or missing, validation raises the missing-filters error
  with that entry's label in its list.
\<close>

theorem falsy_required_filter_is_missing:
  "(\<not> py_truthy v \<longrightarrow>
      validate_mandatory_fields (w\<lparr>filters := Some (AList.update f v fs)\<rparr>)
        = validate_mandatory_fields (w\<lparr>filters := Some (AList.delete f fs)\<rparr>))
   \<and> (list_all meta_ok (metas_of w) \<and> meta \<in> set (metas_of w)
        \<and> py_truthy (dict_get meta ''reqd'')
        \<and> map_of meta ''fieldname'' = Some (PStr g) \<and> map_of meta ''label'' = Some (PStr l)
        \<and> \<not> py_truthy (dict_get (filters_of w) g) \<longrightarrow>
      (\<exists>labels. l \<in> set labels
         \<and> validate_mandatory_fields w
             = Inl (ValidationError ''Missing Filters Required'' (missing_filters_msg labels))))"
proof (intro conjI impI)
  assume "\<not> py_truthy v"
  then show "validate_mandatory_fields (w\<lparr>filters := Some (AList.update f v fs)\<rparr>)
        = validate_mandatory_fields (w\<lparr>filters := Some (AList.delete f fs)\<rparr>)"
    by (simp add: validate_mandatory_fields_def filters_of_def metas_of_def
        throw_list_falsy_absent)
next
  assume a: "list_all meta_ok (metas_of w) \<and> meta \<in> set (metas_of w)
        \<and> py_truthy (dict_get meta ''reqd'')
        \<and> map_of meta ''fieldname'' = Some (PStr g) \<and> map_of meta ''label'' = Some (PStr l)
        \<and> \<not> py_truthy (dict_get (filters_of w) g)"
  then obtain ls where ls: "throw_list (filters_of w) (metas_of w) = Inr (map PStr ls)"
    and mem: "l \<in> set ls"
    using throw_list_ok [of "metas_of w" "filters_of w"] by blast
  from mem have "map PStr ls \<noteq> []" by auto
  with ls have "validate_mandatory_fields w
      = Inl (ValidationError ''Missing Filters Required'' (missing_filters_msg ls))"
    by (simp add: validate_mandatory_fields_def strings_of_PStr)
  with mem show "\<exists>labels. l \<in> set labels
         \<and> validate_mandatory_fields w
             = Inl (ValidationError ''Missing Filters Required'' (missing_filters_msg labels))"
    by blast
qed

text \<open>Three required filters, \<^verbatim>\<open>company\<close> given as the empty string and \<^verbatim>\<open>to_date\<close> not
  given: both labels are reported; and \<^verbatim>\<open>company\<close> given as 0 validates as if left out.\<close>

theorem falsy_required_filter_is_missing_witness:
  "\<not> py_truthy (PStr []) \<and> \<not> py_truthy (PInt 0) \<and> \<not> py_truthy (PBool False)
   \<and> dict_get (filters_of filtered_hook) ''company'' = PStr []
   \<and> (\<exists>labels. ''Company'' \<in> set labels
         \<and> validate_mandatory_fields filtered_hook
             = Inl (ValidationError ''Missing Filters Required'' (missing_filters_msg labels)))
   \<and> validate_mandatory_fields filtered_hook
       = Inl (ValidationError ''Missing Filters Required''
           ''Following Report Filters have missing values:<br><br><ul><li>Company <li>To Date</ul>'')
   \<and> validate_mandatory_fields
         (filtered_hook\<lparr>filters := Some (AList.update ''company'' (PInt 0) [(''year'', PInt 2020)])\<rparr>)
       = validate_mandatory_fields (filtered_hook\<lparr>filters := Some [(''year'', PInt 2020)]\<rparr>)"
proof -
  define meta where
    "meta = [(''fieldname'', PStr ''company''), (''label'', PStr ''Company''), (''reqd'', PInt 1)]"
  have falsy: "\<not> py_truthy (PStr [])" "\<not> py_truthy (PInt 0)" "\<not> py_truthy (PBool False)"
    by simp_all
  have c: "dict_get (filters_of filtered_hook) ''company'' = PStr []"
    by code_simp
  have ok: "list_all meta_ok (metas_of filtered_hook)"
    by code_simp
  have m: "meta \<in> set (metas_of filtered_hook)"
    unfolding meta_def by code_simp
  have r: "py_truthy (dict_get meta ''reqd'')"
    and fn: "map_of meta ''fieldname'' = Some (PStr ''company'')"
    and lb: "map_of meta ''label'' = Some (PStr ''Company'')"
    unfolding meta_def by code_simp+
  have listed: "\<exists>labels. ''Company'' \<in> set labels
         \<and> validate_mandatory_fields filtered_hook
             = Inl (ValidationError ''Missing Filters Required'' (missing_filters_msg labels))"
    using falsy_required_filter_is_missing
      [where w = filtered_hook and meta = meta and g = "''company''" and l = "''Company''"]
      ok m r fn lb c falsy
    by simp
  have v: "validate_mandatory_fields filtered_hook
       = Inl (ValidationError ''Missing Filters Required''
           ''Following Report Filters have missing values:<br><br><ul><li>Company <li>To Date</ul>'')"
    by code_simp
  have d: "AList.delete ''company'' [(''year'', PInt 2020)] = [(''year'', PInt 2020)]"
    by code_simp
  have "validate_mandatory_fields
         (filtered_hook\<lparr>filters := Some (AList.update ''company'' (PInt 0) [(''year'', PInt 2020)])\<rparr>)
       = validate_mandatory_fields
         (filtered_hook\<lparr>filters := Some (AList.delete ''company'' [(''year'', PInt 2020)])\<rparr>)"
    using falsy_required_filter_is_missing
      [where v = "PInt 0" and w = filtered_hook and f = "''company''" and fs = "[(''year'', PInt 2020)]"]
      falsy
    by blast
  with d falsy c listed v show ?thesis by simp
qed

end
